theory Spec2Isabelle
  imports Main "HOL-Library.AList" "HOL-Library.Sublist"
begin

section \<open>Python strings\<close>

text \<open>
  A Python \<open>str\<close> is modelled as a \<^typ>\<open>string\<close>: a list of characters, each
  \<^typ>\<open>char\<close> standing for the code point of the same number (the range 0 to 255).
  The character classes below are the ones Python 3 uses on that range for
  \<open>str.strip\<close>, \<open>str.lower\<close> and the \<open>re\<close> escapes \<open>\s\<close>, \<open>\d\<close>, \<open>\w\<close>.
  Code points above 255 (the rupee sign of the amount pattern among them) are outside
  the modelled alphabet.
\<close>

definition code :: "char \<Rightarrow> nat" where
  "code c = of_char c"

definition is_space :: "char \<Rightarrow> bool" where
  "is_space c = (let n = code c in
     (9 \<le> n \<and> n \<le> 13) \<or> (28 \<le> n \<and> n \<le> 32) \<or> n = 133 \<or> n = 160)"

definition is_digit :: "char \<Rightarrow> bool" where
  "is_digit c = (let n = code c in 48 \<le> n \<and> n \<le> 57)"

definition is_upper_az :: "char \<Rightarrow> bool" where
  "is_upper_az c = (let n = code c in 65 \<le> n \<and> n \<le> 90)"

definition is_lower_az :: "char \<Rightarrow> bool" where
  "is_lower_az c = (let n = code c in 97 \<le> n \<and> n \<le> 122)"

definition is_alpha_az :: "char \<Rightarrow> bool" where
  "is_alpha_az c = (is_upper_az c \<or> is_lower_az c)"

definition is_word :: "char \<Rightarrow> bool" where
  "is_word c = (let n = code c in
     is_digit c \<or> is_alpha_az c \<or> n = 95 \<or>
     n = 170 \<or> n = 178 \<or> n = 179 \<or> n = 181 \<or> n = 185 \<or> n = 186 \<or>
     (188 \<le> n \<and> n \<le> 190) \<or> (192 \<le> n \<and> n \<le> 214) \<or>
     (216 \<le> n \<and> n \<le> 246) \<or> (248 \<le> n \<and> n \<le> 255))"

definition lower_char :: "char \<Rightarrow> char" where
  "lower_char c = (let n = code c in
     if (65 \<le> n \<and> n \<le> 90) \<or> (192 \<le> n \<and> n \<le> 222 \<and> n \<noteq> 215)
     then char_of (n + 32) else c)"

definition lower :: "string \<Rightarrow> string" where
  "lower s = map lower_char s"

definition strip :: "string \<Rightarrow> string" where
  "strip s = rev (dropWhile is_space (rev (dropWhile is_space s)))"

text \<open>\<open>sub in s\<close>, for a non-empty or empty \<open>sub\<close>.\<close>

fun contains :: "string \<Rightarrow> string \<Rightarrow> bool" where
  "contains sub [] = (sub = [])"
| "contains sub (c # cs) = (prefix sub (c # cs) \<or> contains sub cs)"

definition startswith :: "string \<Rightarrow> string \<Rightarrow> bool" where
  "startswith s p = prefix p s"

definition endswith :: "string \<Rightarrow> string \<Rightarrow> bool" where
  "endswith s p = suffix p s"

text \<open>\<open>s.split(sep)\<close> for a one-character separator: never empty, one more piece than
  there are separators.\<close>

fun split_char :: "char \<Rightarrow> string \<Rightarrow> string list" where
  "split_char sep [] = [[]]"
| "split_char sep (c # cs) =
     (if c = sep then [] # split_char sep cs
      else (case split_char sep cs of
              [] \<Rightarrow> [[c]]
            | p # ps \<Rightarrow> (c # p) # ps))"

text \<open>\<open>s.split(sep, 1)\<close>: split at the first separator only.\<close>

definition split_first :: "char \<Rightarrow> string \<Rightarrow> string list" where
  "split_first sep s =
     (if sep \<in> set s
      then [takeWhile (\<lambda>c. c \<noteq> sep) s, tl (dropWhile (\<lambda>c. c \<noteq> sep) s)]
      else [s])"

text \<open>\<open>s.replace(old, new)\<close> for a non-empty \<open>old\<close>: occurrences are replaced from the
  left and do not overlap.\<close>

function replace :: "string \<Rightarrow> string \<Rightarrow> string \<Rightarrow> string" where
  "replace old new [] = []"
| "replace old new (c # cs) =
     (if old \<noteq> [] \<and> prefix old (c # cs)
      then new @ replace old new (drop (length old) (c # cs))
      else c # replace old new cs)"
  by pat_completeness auto
termination
  by (relation "measure (\<lambda>(old, new, s). length s)") (auto simp: neq_Nil_conv)

text \<open>\<open>s.count(sub)\<close> for a non-empty \<open>sub\<close>: the occurrences found scanning from the
  left, each search resuming behind the previous occurrence.\<close>

function count_str :: "string \<Rightarrow> string \<Rightarrow> nat" where
  "count_str sub [] = 0"
| "count_str sub (c # cs) =
     (if sub \<noteq> [] \<and> prefix sub (c # cs)
      then Suc (count_str sub (drop (length sub) (c # cs)))
      else count_str sub cs)"
  by pat_completeness auto
termination
  by (relation "measure (\<lambda>(sub, s). length s)") (auto simp: neq_Nil_conv)

text \<open>\<open>s.zfill(w)\<close>: zeros on the left up to width \<open>w\<close>, behind a leading sign.\<close>

definition zfill :: "nat \<Rightarrow> string \<Rightarrow> string" where
  "zfill w s =
     (if w \<le> length s then s
      else (case s of
              [] \<Rightarrow> replicate w (CHR ''0'')
            | c # cs \<Rightarrow>
                if c = CHR ''+'' \<or> c = CHR ''-''
                then c # replicate (w - length s) (CHR ''0'') @ cs
                else replicate (w - length s) (CHR ''0'') @ s))"

text \<open>\<open>sep.join(parts)\<close>.\<close>

fun join :: "string \<Rightarrow> string list \<Rightarrow> string" where
  "join sep [] = []"
| "join sep [p] = p"
| "join sep (p # q # ps) = p @ sep @ join sep (q # ps)"

section \<open>Regular expressions\<close>

text \<open>
  The patterns of the program are sequences of one-character tests, greedy repetitions
  of a one-character test, word boundaries and capturing groups. A pattern is a list of
  items, matched as the backtracking matcher of \<open>re\<close> does: a repetition takes as many
  characters as it can and gives them back one at a time while the rest of the pattern
  fails.
\<close>

datatype item =
    One "char \<Rightarrow> bool"
  | Rep nat "nat option" "char \<Rightarrow> bool"
  | Bnd
  | GOpen
  | GClose

text \<open>The candidate lengths of a repetition \<open>{lo,hi}\<close> over a run of \<open>k\<close> matching
  characters, longest first.\<close>

definition counts :: "nat \<Rightarrow> nat option \<Rightarrow> nat \<Rightarrow> nat list" where
  "counts lo hi k =
     rev [lo ..< Suc (case hi of None \<Rightarrow> k | Some h \<Rightarrow> min h k)]"

fun first_some :: "(nat \<Rightarrow> 'a option) \<Rightarrow> nat list \<Rightarrow> 'a option" where
  "first_some f [] = None"
| "first_some f (n # ns) = (case f n of Some r \<Rightarrow> Some r | None \<Rightarrow> first_some f ns)"

definition word_opt :: "char option \<Rightarrow> bool" where
  "word_opt c = (case c of None \<Rightarrow> False | Some x \<Rightarrow> is_word x)"

definition head_opt :: "string \<Rightarrow> char option" where
  "head_opt s = (case s of [] \<Rightarrow> None | c # _ \<Rightarrow> Some c)"

text \<open>\<open>\b\<close>: exactly one of the characters before and behind the position is a word
  character; the ends of the string count as non-word.\<close>

definition is_boundary :: "char option \<Rightarrow> string \<Rightarrow> bool" where
  "is_boundary prev rest = (word_opt prev \<noteq> word_opt (head_opt rest))"

definition last_of :: "char option \<Rightarrow> string \<Rightarrow> char option" where
  "last_of prev taken = (if taken = [] then prev else Some (last taken))"

text \<open>
  \<open>bt p prev rest os gs\<close> matches pattern \<open>p\<close> at the position whose left neighbour is
  \<open>prev\<close> and whose remaining text is \<open>rest\<close>; \<open>os\<close> holds the text taken so far by the
  groups still open (innermost first), \<open>gs\<close> the closed groups in closing order. The
  result is the groups, the last character before the end of the match and the text
  behind the match.
\<close>

fun bt :: "item list \<Rightarrow> char option \<Rightarrow> string \<Rightarrow> string list \<Rightarrow> string list
    \<Rightarrow> (string list \<times> char option \<times> string) option" where
  "bt [] prev rest os gs = Some (gs, prev, rest)"
| "bt (One p # r) prev rest os gs =
     (case rest of
        [] \<Rightarrow> None
      | c # cs \<Rightarrow> if p c then bt r (Some c) cs (map (\<lambda>a. a @ [c]) os) gs else None)"
| "bt (Rep lo hi p # r) prev rest os gs =
     first_some
       (\<lambda>n. bt r (last_of prev (take n rest)) (drop n rest)
               (map (\<lambda>a. a @ take n rest) os) gs)
       (counts lo hi (length (takeWhile p rest)))"
| "bt (Bnd # r) prev rest os gs =
     (if is_boundary prev rest then bt r prev rest os gs else None)"
| "bt (GOpen # r) prev rest os gs = bt r prev rest ([] # os) gs"
| "bt (GClose # r) prev rest os gs =
     (case os of [] \<Rightarrow> None | a # os' \<Rightarrow> bt r prev rest os' (gs @ [a]))"

text \<open>\<open>re.search\<close>: the match at the leftmost position that has one.\<close>

fun search_from :: "item list \<Rightarrow> char option \<Rightarrow> string
    \<Rightarrow> (string list \<times> char option \<times> string) option" where
  "search_from p prev [] = bt p prev [] [] []"
| "search_from p prev (c # cs) =
     (case bt p prev (c # cs) [] [] of
        Some m \<Rightarrow> Some m
      | None \<Rightarrow> search_from p (Some c) cs)"

definition re_search :: "item list \<Rightarrow> string \<Rightarrow> string list option" where
  "re_search p s = map_option fst (search_from p None s)"

text \<open>Building blocks of the patterns.\<close>

definition ch :: "char \<Rightarrow> item" where
  "ch x = One (\<lambda>c. c = x)"

definition chi :: "char \<Rightarrow> item" where
  "chi x = One (\<lambda>c. lower_char c = lower_char x)"

definition lit :: "string \<Rightarrow> item list" where
  "lit s = map ch s"

definition liti :: "string \<Rightarrow> item list" where
  "liti s = map chi s"

section \<open>Date extraction\<close>

text \<open>The pattern \<open>\b(\d{1,2})/(\d{1,2})/(\d{4})\b\<close> of \<open>helper.py\<close>.\<close>

definition date_pattern :: "item list" where
  "date_pattern =
     [Bnd, GOpen, Rep 1 (Some 2) is_digit, GClose, ch (CHR ''/''),
      GOpen, Rep 1 (Some 2) is_digit, GClose, ch (CHR ''/''),
      GOpen, Rep 4 (Some 4) is_digit, GClose, Bnd]"

text \<open>\<open>extract_date_from_description\<close> of \<open>helper.py\<close>; \<open>None\<close> is Python's \<open>None\<close>.\<close>

definition extract_date_from_description :: "string \<Rightarrow> string option" where
  "extract_date_from_description description =
     (if description = [] then None
      else (case re_search date_pattern description of
              Some [day, month, year] \<Rightarrow>
                Some (zfill 2 day @ ''/'' @ zfill 2 month @ ''/'' @ year)
            | _ \<Rightarrow> None))"

text \<open>The copy of the same function in \<open>store.py\<close>, with its own pattern.\<close>

definition store_date_pattern :: "item list" where
  "store_date_pattern =
     [Bnd, GOpen, Rep 1 (Some 2) is_digit, GClose, ch (CHR ''/''),
      GOpen, Rep 1 (Some 2) is_digit, GClose, ch (CHR ''/''),
      GOpen, Rep 4 (Some 4) is_digit, GClose, Bnd]"

definition store_extract_date_from_description :: "string \<Rightarrow> string option" where
  "store_extract_date_from_description description =
     (if description = [] then None
      else (case re_search store_date_pattern description of
              Some [day, month, year] \<Rightarrow>
                Some (zfill 2 day @ ''/'' @ zfill 2 month @ ''/'' @ year)
            | _ \<Rightarrow> None))"

text \<open>
  What the claims call a bare day/month/year triple: one or two digits, a slash, one or
  two digits, a slash and four digits, with no word character directly before or
  behind (the two \<open>\b\<close> of the pattern). \<open>pre\<close> is the text before the triple and
  \<open>post\<close> the text behind it.
\<close>

definition date_occurrence :: "string \<Rightarrow> string \<Rightarrow> string \<Rightarrow> string \<Rightarrow> string \<Rightarrow> bool" where
  "date_occurrence pre d m y post =
     (list_all is_digit d \<and> (length d = 1 \<or> length d = 2) \<and>
      list_all is_digit m \<and> (length m = 1 \<or> length m = 2) \<and>
      list_all is_digit y \<and> length y = 4 \<and>
      \<not> word_opt (last_of None pre) \<and> \<not> word_opt (head_opt post))"

text \<open>\<open>re.findall\<close>: the groups of the successive matches, each search resuming behind
  the previous match. The patterns of the program start with a literal, so that no
  match is empty; the scan stops at a match that takes no character.\<close>

function findall_from :: "item list \<Rightarrow> char option \<Rightarrow> string \<Rightarrow> string list list" where
  "findall_from p prev rest =
     (case search_from p prev rest of
        None \<Rightarrow> []
      | Some (gs, prev', rest') \<Rightarrow>
          if length rest' < length rest then gs # findall_from p prev' rest' else [gs])"
  by pat_completeness auto
termination
  by (relation "measure (\<lambda>(p, prev, rest). length rest)") auto

text \<open>For a pattern with one group, \<open>re.findall\<close> returns the list of that group's
  texts.\<close>

definition group1 :: "string list \<Rightarrow> string" where
  "group1 gs = (case gs of [] \<Rightarrow> [] | g # _ \<Rightarrow> g)"

definition re_findall :: "item list \<Rightarrow> string \<Rightarrow> string list" where
  "re_findall p s = map group1 (findall_from p None s)"

section \<open>Exceptions, services and the run state\<close>

text \<open>An exception is its class name and the text \<open>str(e)\<close> gives.\<close>

datatype error = Exception string string

definition str_of :: "error \<Rightarrow> string" where
  "str_of e = (case e of Exception cls msg \<Rightarrow> msg)"

type_synonym path = "string list"

type_synonym image = string

datatype prompt_kind = TravelPrompt | MealPrompt | CabPrompt | AccomodationPrompt | GenericPrompt

text \<open>
  The requests the program sends to the language model. The fixed prompt texts are not
  reproduced: a request names the template and carries the values spliced into it.
\<close>

datatype request =
    ReadInvoiceImage image
  | StructureInvoice string string
  | Describe prompt_kind string
  | AnswerQuery string string

record document =
  page_content :: string
  doc_employee_name :: string
  doc_date :: "string option"

text \<open>
  The external collaborators, each a function of its request that answers or raises:
  \<open>pymupdf4llm.to_markdown\<close>, the rendering of a PDF's pages to base64 PNG images
  (\<open>fitz\<close>), the language model (\<open>llm.invoke\<close>, \<open>chain.run\<close>) and the filtered
  similarity search of the vector store (query text, \<open>k\<close>, employee name).
\<close>

record 's services =
  to_markdown :: "path \<Rightarrow> error + string"
  render_pages :: "path \<Rightarrow> error + image list"
  llm_invoke :: "request \<Rightarrow> error + string"
  similarity_search :: "string \<Rightarrow> nat \<Rightarrow> string \<Rightarrow> error + (document \<times> 's) list"

record summary_entry =
  invoice_count :: nat
  invoice_mode :: string
  Reimbursement_Status :: string
  description :: string

text \<open>The \<open>State\<close> dictionary: a key may be absent. A \<open>dict\<close> is an association list
  in insertion order.\<close>

record State =
  md_text :: "string option"
  employee_invoice_data :: "(string \<times> string) list option"
  extract_invoice_data_key :: "(string \<times> summary_entry) list option"

section \<open>Field extractors\<close>

definition no_information :: string where
  "no_information = ''No information about employee''"

definition colon_or_space :: "char \<Rightarrow> bool" where
  "colon_or_space c = (c = CHR '':'' \<or> is_space c)"

definition alpha_or_space :: "char \<Rightarrow> bool" where
  "alpha_or_space c = (is_alpha_az c \<or> is_space c)"

definition alpha_space_or_star :: "char \<Rightarrow> bool" where
  "alpha_space_or_star c = (is_alpha_az c \<or> is_space c \<or> c = CHR ''*'')"

definition alpha_or_slash :: "char \<Rightarrow> bool" where
  "alpha_or_slash c = (is_alpha_az c \<or> c = CHR ''/'')"

text \<open>\<open>LABEL[:\s]+(CLASS+)\<close> under \<open>re.IGNORECASE\<close>.\<close>

definition labelled :: "string \<Rightarrow> (char \<Rightarrow> bool) \<Rightarrow> item list" where
  "labelled label cls = liti label @ [Rep 1 None colon_or_space, GOpen, Rep 1 None cls, GClose]"

definition name_patterns :: "item list list" where
  "name_patterns =
     [labelled ''Customer Name'' alpha_or_space,
      labelled ''Passenger'' alpha_or_space,
      labelled ''Name'' alpha_or_space]"

definition status_patterns :: "item list list" where
  "status_patterns =
     [labelled ''Status'' alpha_space_or_star,
      labelled ''Reimbursement'' alpha_space_or_star]"

text \<open>The text behind the first colon of a line, trimmed, without any \<open>*\<close>, trimmed
  again; \<open>IndexError\<close> when the line has no colon.\<close>

definition line_value :: "string \<Rightarrow> error + string" where
  "line_value line =
     (case split_first (CHR '':'') line of
        _ # v # _ \<Rightarrow> Inr (strip (replace ''*'' [] (replace ''**'' [] (strip v))))
      | _ \<Rightarrow> Inl (Exception ''IndexError'' ''list index out of range''))"

text \<open>The first loop of \<open>get_employee_name\<close>: \<open>Some name\<close> is its \<open>return name\<close>,
  \<open>None\<close> the end of the loop.\<close>

fun name_from_lines :: "string list \<Rightarrow> error + string option" where
  "name_from_lines [] = Inr None"
| "name_from_lines (line # lines) =
     (if contains ''**EMPLOYEE NAME:**'' line
      then (case line_value line of
              Inl e \<Rightarrow> Inl e
            | Inr name \<Rightarrow>
                if name \<noteq> [] \<and> name \<noteq> no_information then Inr (Some name)
                else name_from_lines lines)
      else name_from_lines lines)"

text \<open>The fallback loop over the patterns, shared in shape by both extractors.\<close>

fun from_patterns :: "item list list \<Rightarrow> string \<Rightarrow> string option" where
  "from_patterns [] text = None"
| "from_patterns (pattern # patterns) text =
     (case re_findall pattern text of
        [] \<Rightarrow> from_patterns patterns text
      | m # _ \<Rightarrow>
          (let name = strip m in
           if name \<noteq> [] \<and> 1 < length name then Some name
           else from_patterns patterns text))"

definition get_employee_name_body :: "string \<Rightarrow> error + string" where
  "get_employee_name_body invoice_text =
     (case name_from_lines (split_char (CHR 0x0A) invoice_text) of
        Inl e \<Rightarrow> Inl e
      | Inr (Some name) \<Rightarrow> Inr name
      | Inr None \<Rightarrow>
          (case from_patterns name_patterns invoice_text of
             Some name \<Rightarrow> Inr name
           | None \<Rightarrow> Inr no_information))"

definition get_employee_name :: "string \<Rightarrow> string" where
  "get_employee_name invoice_text =
     (case get_employee_name_body invoice_text of
        Inl e \<Rightarrow> no_information
      | Inr name \<Rightarrow> name)"

fun status_from_lines :: "string list \<Rightarrow> error + string option" where
  "status_from_lines [] = Inr None"
| "status_from_lines (line # lines) =
     (if contains ''**REIMBURSEMENT STATUS:**'' line
      then (case line_value line of
              Inl e \<Rightarrow> Inl e
            | Inr status \<Rightarrow>
                if status \<noteq> [] then Inr (Some status) else status_from_lines lines)
      else status_from_lines lines)"

definition get_reimbursement_status :: "string \<Rightarrow> string" where
  "get_reimbursement_status invoice_text =
     (case status_from_lines (split_char (CHR 0x0A) invoice_text) of
        Inl e \<Rightarrow> ''**Pending Review**''
      | Inr (Some status) \<Rightarrow> status
      | Inr None \<Rightarrow>
          (case from_patterns status_patterns invoice_text of
             Some status \<Rightarrow> status
           | None \<Rightarrow> ''**Pending Review**''))"

section \<open>Category and description\<close>

text \<open>The pattern \<open>Invoice Type[:\s]+([A-Za-z/]+)\<close> under \<open>re.IGNORECASE\<close>.\<close>

definition invoice_type_pattern :: "item list" where
  "invoice_type_pattern = labelled ''Invoice Type'' alpha_or_slash"

text \<open>The \<open>if\<close>/\<open>elif\<close> chain that normalises the captured, lower-cased invoice
  type.\<close>

definition normalize_category :: "string \<Rightarrow> string" where
  "normalize_category category =
     (if contains ''meal'' category \<or> contains ''food'' category then ''meal''
      else if contains ''travel'' category \<or> contains ''ticket'' category \<or>
              contains ''flight'' category \<or> contains ''train'' category then ''travel''
      else if contains ''cab'' category \<or> contains ''taxi'' category \<or>
              contains ''uber'' category \<or> contains ''ola'' category then ''cab''
      else if contains ''hotel'' category \<or> contains ''house'' category \<or>
              contains ''pg'' category \<or> contains ''hostel'' category then ''accomodation''
      else ''other'')"

text \<open>The invoice type as captured and lower-cased, \<open>"other"\<close> without a match.\<close>

definition captured_category :: "string \<Rightarrow> string" where
  "captured_category invoice_data =
     (case re_search invoice_type_pattern invoice_data of
        Some (g # _) \<Rightarrow> lower g
      | _ \<Rightarrow> ''other'')"

definition select_prompt :: "string \<Rightarrow> prompt_kind" where
  "select_prompt category =
     (if category = ''travel'' then TravelPrompt
      else if category = ''meal'' then MealPrompt
      else if category = ''cab'' then CabPrompt
      else if category = ''accomodation'' then AccomodationPrompt
      else GenericPrompt)"

definition generate_description_with_llm :: "'s services \<Rightarrow> string \<Rightarrow> string \<Rightarrow> string" where
  "generate_description_with_llm sv invoice_data category =
     (case llm_invoke sv (Describe (select_prompt category) invoice_data) of
        Inl e \<Rightarrow> ''Invoice total with basic details (Error: '' @ str_of e @ '')''
      | Inr content \<Rightarrow>
          (let description = strip content in
           if startswith description [CHR 0x22] \<and> endswith description [CHR 0x22]
           then butlast (tl description)
           else description))"

text \<open>\<open>get_invoice_category_and_description\<close>: no step of its \<open>try\<close> block raises on
  a string (the description generator catches its own exceptions), so that the
  \<open>except\<close> branch is never taken.\<close>

definition get_invoice_category_and_description :: "'s services \<Rightarrow> string \<Rightarrow> string \<times> string" where
  "get_invoice_category_and_description sv invoice_data =
     (let category = normalize_category (captured_category invoice_data);
          description = generate_description_with_llm sv invoice_data category
      in (category, description))"

section \<open>Aggregation\<close>

definition invoice_marker :: string where
  "invoice_marker = ''**INVOICE DETAILS:**''"

text \<open>The pattern \<open>Total Amount[:\s]+[$]\s*([0-9,]+\.?\d*)\<close>; of the two currency signs
  of the source only the dollar is in the modelled alphabet.\<close>

definition amount_pattern :: "item list" where
  "amount_pattern =
     lit ''Total Amount'' @
     [Rep 1 None colon_or_space, ch (CHR ''$''), Rep 0 None is_space, GOpen,
      Rep 1 None (\<lambda>c. is_digit c \<or> c = CHR '',''),
      Rep 0 (Some 1) (\<lambda>c. c = CHR ''.''), Rep 0 None is_digit, GClose]"

text \<open>Whether \<open>float\<close> accepts a text made of digits and at most one point, which is all
  that an amount without its commas can be: it needs a digit.\<close>

definition float_accepts :: "string \<Rightarrow> bool" where
  "float_accepts s = list_ex is_digit s"

text \<open>The sum over the amounts is computed and dropped; what remains of it is the
  \<open>ValueError\<close> of the first amount that \<open>float\<close> refuses.\<close>

fun sum_amounts :: "string list \<Rightarrow> error + unit" where
  "sum_amounts [] = Inr ()"
| "sum_amounts (amt # amounts) =
     (if amt \<noteq> [] \<and> \<not> float_accepts (replace '','' [] amt)
      then Inl (Exception ''ValueError''
             (''could not convert string to float: '' @ [CHR 0x27] @ replace '','' [] amt @ [CHR 0x27]))
      else sum_amounts amounts)"

definition summarize :: "'s services \<Rightarrow> string \<Rightarrow> summary_entry" where
  "summarize sv invoice_data =
     (let (category, description) = get_invoice_category_and_description sv invoice_data in
      \<lparr>invoice_count = count_str invoice_marker invoice_data,
       invoice_mode = category,
       Reimbursement_Status = get_reimbursement_status invoice_data,
       description = description\<rparr>)"

text \<open>The loop of \<open>get_summary\<close> over the items of the employee map.\<close>

fun summary_loop :: "'s services \<Rightarrow> (string \<times> string) list
    \<Rightarrow> (string \<times> summary_entry) list \<Rightarrow> error + (string \<times> summary_entry) list" where
  "summary_loop sv [] summary = Inr summary"
| "summary_loop sv ((employee_name, invoice_data) # items) summary =
     (case sum_amounts (re_findall amount_pattern invoice_data) of
        Inl e \<Rightarrow> Inl e
      | Inr _ \<Rightarrow>
          summary_loop sv items
            (AList.update employee_name (summarize sv invoice_data) summary))"

definition get_summary :: "'s services \<Rightarrow> State \<Rightarrow> error + (string \<times> summary_entry) list" where
  "get_summary sv state =
     (case employee_invoice_data state of
        None \<Rightarrow> Inr []
      | Some items \<Rightarrow> summary_loop sv items [])"

section \<open>Invoice extraction\<close>

definition policy_of :: "State \<Rightarrow> string" where
  "policy_of state = (case md_text state of None \<Rightarrow> [] | Some t \<Rightarrow> t)"

text \<open>The page loop of \<open>extract_with_vision\<close>: two requests per page.\<close>

fun vision_pages :: "'s services \<Rightarrow> State \<Rightarrow> image list \<Rightarrow> error + string list" where
  "vision_pages sv state [] = Inr []"
| "vision_pages sv state (img # imgs) =
     (case llm_invoke sv (ReadInvoiceImage img) of
        Inl e \<Rightarrow> Inl e
      | Inr extracted_text \<Rightarrow>
          (case llm_invoke sv (StructureInvoice (policy_of state) extracted_text) of
             Inl e \<Rightarrow> Inl e
           | Inr final \<Rightarrow>
               (case vision_pages sv state imgs of
                  Inl e \<Rightarrow> Inl e
                | Inr all_text \<Rightarrow> Inr (final # all_text))))"

definition extract_with_vision :: "'s services \<Rightarrow> path \<Rightarrow> State \<Rightarrow> error + string" where
  "extract_with_vision sv pdf_path state =
     (case render_pages sv pdf_path of
        Inl e \<Rightarrow> Inl e
      | Inr imgs \<Rightarrow>
          (case vision_pages sv state imgs of
             Inl e \<Rightarrow> Inl e
           | Inr all_text \<Rightarrow> Inr (join [CHR 0x0A, CHR 0x0A] all_text)))"

definition process_with_llm :: "'s services \<Rightarrow> string \<Rightarrow> State \<Rightarrow> error + string" where
  "process_with_llm sv text state = llm_invoke sv (StructureInvoice (policy_of state) text)"

text \<open>The \<open>try\<close> block of \<open>extract_invoice_data\<close>, and the function with its
  \<open>except\<close>.\<close>

definition extract_invoice_data_body :: "'s services \<Rightarrow> path \<Rightarrow> State \<Rightarrow> error + string" where
  "extract_invoice_data_body sv pdf_path state =
     (case to_markdown sv pdf_path of
        Inl e \<Rightarrow> Inl e
      | Inr text \<Rightarrow>
          if text = [] \<or> strip text = [] then extract_with_vision sv pdf_path state
          else process_with_llm sv text state)"

definition extract_invoice_data :: "'s services \<Rightarrow> path \<Rightarrow> State \<Rightarrow> string" where
  "extract_invoice_data sv pdf_path state =
     (case extract_invoice_data_body sv pdf_path state of
        Inl e \<Rightarrow> []
      | Inr text \<Rightarrow> text)"

section \<open>Files and archives\<close>

text \<open>
  A path is the list of its components. The content of a file is either opaque bytes
  or a zip archive: the list of its members in archive order, each a member path with
  the member's content (\<open>None\<close> for a directory entry). A directory lists its entries
  in the order in which \<open>os.scandir\<close> reports them.
\<close>

datatype fcontent = Blob | Archive "(path \<times> fcontent option) list"

datatype fnode = FileN fcontent | DirN "(string \<times> fnode) list"

fun lookup :: "fnode \<Rightarrow> path \<Rightarrow> fnode option" where
  "lookup n [] = Some n"
| "lookup (FileN c) (x # xs) = None"
| "lookup (DirN es) (x # xs) =
     (case map_of es x of None \<Rightarrow> None | Some child \<Rightarrow> lookup child xs)"

text \<open>A new file (\<open>Some\<close> content) or directory (\<open>None\<close>) below missing directories.\<close>

fun fresh :: "path \<Rightarrow> fcontent option \<Rightarrow> fnode" where
  "fresh [] None = DirN []"
| "fresh [] (Some c) = FileN c"
| "fresh (x # xs) m = DirN [(x, fresh xs m)]"

text \<open>
  The text of an operating-system error: \<open>[Errno n] message: 'path'\<close>, the path written
  with slashes between its components (and in plain quotes, which is how Python writes
  a path without quotes or escapes in it).
\<close>

definition show_path :: "path \<Rightarrow> string" where
  "show_path p = join ''/'' p"

definition os_error :: "string \<Rightarrow> string \<Rightarrow> path \<Rightarrow> error" where
  "os_error cls msg p = Exception cls (msg @ '': '' @ [CHR 0x27] @ show_path p @ [CHR 0x27])"

text \<open>
  Writing a file, or making a directory, at a path, with the missing directories on
  the way: what \<open>ZipFile._extract_member\<close> does for one member and what
  \<open>os.makedirs(path, exist_ok=True)\<close> does. A file is overwritten, a directory that is
  there is kept; a file in the place of a directory and a directory in the place of a
  file are errors. \<open>store_at here n p\<close> works in the node \<open>n\<close> found at the path
  \<open>here\<close>, with \<open>p\<close> the rest of the way; the error names the path at which the
  operating system fails.
\<close>

fun store_at :: "path \<Rightarrow> fnode \<Rightarrow> path \<Rightarrow> fcontent option \<Rightarrow> error + fnode" where
  "store_at here (FileN c) [] None =
     Inl (os_error ''FileExistsError'' ''[Errno 17] File exists'' here)"
| "store_at here (FileN c) [] (Some new) = Inr (FileN new)"
| "store_at here (DirN es) [] None = Inr (DirN es)"
| "store_at here (DirN es) [] (Some new) =
     Inl (os_error ''IsADirectoryError'' ''[Errno 21] Is a directory'' here)"
| "store_at here (FileN c) (x # xs) m =
     Inl (os_error ''NotADirectoryError'' ''[Errno 20] Not a directory'' (here @ [x]))"
| "store_at here (DirN es) (x # xs) m =
     (case map_of es x of
        None \<Rightarrow> Inr (DirN (es @ [(x, fresh xs m)]))
      | Some child \<Rightarrow>
          (case store_at (here @ [x]) child xs m of
             Inl e \<Rightarrow> Inl e
           | Inr child' \<Rightarrow> Inr (DirN (AList.update x child' es))))"

definition store :: "fnode \<Rightarrow> path \<Rightarrow> fcontent option \<Rightarrow> error + fnode" where
  "store fs p m = store_at [] fs p m"

text \<open>The member path as \<open>zipfile\<close> cleans it: empty, \<open>.\<close> and \<open>..\<close> components are
  dropped.\<close>

definition sanitize :: "path \<Rightarrow> path" where
  "sanitize name = filter (\<lambda>x. x \<noteq> [] \<and> x \<noteq> ''.'' \<and> x \<noteq> ''..'') name"

text \<open>Whether the way to a path leads through a file.\<close>

fun through_file :: "fnode \<Rightarrow> path \<Rightarrow> bool" where
  "through_file n [] = False"
| "through_file (FileN c) (x # xs) = True"
| "through_file (DirN es) (x # xs) =
     (case map_of es x of None \<Rightarrow> False | Some child \<Rightarrow> through_file child xs)"

text \<open>\<open>zipfile.ZipFile(zip_path, 'r')\<close>: the members of the archive at the path.\<close>

definition open_zip :: "fnode \<Rightarrow> path \<Rightarrow> error + (path \<times> fcontent option) list" where
  "open_zip fs zip_path =
     (case lookup fs zip_path of
        None \<Rightarrow>
          if through_file fs zip_path
          then Inl (os_error ''NotADirectoryError'' ''[Errno 20] Not a directory'' zip_path)
          else Inl (os_error ''FileNotFoundError'' ''[Errno 2] No such file or directory'' zip_path)
      | Some (DirN es) \<Rightarrow>
          Inl (os_error ''IsADirectoryError'' ''[Errno 21] Is a directory'' zip_path)
      | Some (FileN Blob) \<Rightarrow> Inl (Exception ''BadZipFile'' ''File is not a zip file'')
      | Some (FileN (Archive members)) \<Rightarrow> Inr members)"

fun extractall :: "fnode \<Rightarrow> path \<Rightarrow> (path \<times> fcontent option) list \<Rightarrow> error + fnode" where
  "extractall fs extract_to [] = Inr fs"
| "extractall fs extract_to ((name, c) # members) =
     (case store fs (extract_to @ sanitize name) c of
        Inl e \<Rightarrow> Inl e
      | Inr fs' \<Rightarrow> extractall fs' extract_to members)"

definition is_dir :: "fnode \<Rightarrow> bool" where
  "is_dir n = (case n of DirN es \<Rightarrow> True | FileN c \<Rightarrow> False)"

definition dir_names :: "(string \<times> fnode) list \<Rightarrow> string list" where
  "dir_names es = map fst (filter (\<lambda>e. is_dir (snd e)) es)"

definition file_names :: "(string \<times> fnode) list \<Rightarrow> string list" where
  "file_names es = map fst (filter (\<lambda>e. \<not> is_dir (snd e)) es)"

definition nested_name :: "string \<Rightarrow> string" where
  "nested_name file = ''nested_'' @ take (length file - 4) file"

section \<open>The archive walker\<close>

text \<open>
  \<open>extract_zip_and_find_pdfs\<close> with its \<open>os.walk\<close> loop. The recursion follows the
  archives found on the way and has no bound in the source, so the model counts calls:
  the first argument is the number of nested calls allowed, \<open>None\<close> says that it did
  not suffice. A result is the exception raised, or the file system left behind and
  the list of PDF paths. \<open>walk\<close> is the visit of one directory by \<open>os.walk\<close> (the
  directory is listed, its files are handled by the loop body in \<open>walk_files\<close>, then
  the subdirectories found by the listing are visited in \<open>walk_dirs\<close>; a path that is
  no directory yields nothing).
\<close>

text \<open>Sequencing: \<open>and_then\<close> passes on the result of a call that returned,
  \<open>or_raise\<close> the value of a step that did not raise.\<close>

definition and_then :: "(error + 'a) option \<Rightarrow> ('a \<Rightarrow> (error + 'b) option) \<Rightarrow> (error + 'b) option" where
  "and_then r f = (case r of None \<Rightarrow> None | Some (Inl e) \<Rightarrow> Some (Inl e) | Some (Inr x) \<Rightarrow> f x)"

definition or_raise :: "error + 'a \<Rightarrow> ('a \<Rightarrow> (error + 'b) option) \<Rightarrow> (error + 'b) option" where
  "or_raise r f = (case r of Inl e \<Rightarrow> Some (Inl e) | Inr x \<Rightarrow> f x)"

function (sequential) extract_zip_and_find_pdfs :: "nat \<Rightarrow> fnode \<Rightarrow> path \<Rightarrow> path \<Rightarrow> (error + fnode \<times> path list) option"
  and walk :: "nat \<Rightarrow> fnode \<Rightarrow> path \<Rightarrow> (error + fnode \<times> path list) option"
  and walk_files :: "nat \<Rightarrow> fnode \<Rightarrow> path \<Rightarrow> string list \<Rightarrow> (error + fnode \<times> path list) option"
  and walk_dirs :: "nat \<Rightarrow> fnode \<Rightarrow> path \<Rightarrow> string list \<Rightarrow> (error + fnode \<times> path list) option"
  where
  "extract_zip_and_find_pdfs 0 fs zip_path extract_to = None"
| "extract_zip_and_find_pdfs (Suc n) fs zip_path extract_to =
     or_raise (open_zip fs zip_path) (\<lambda>members.
     or_raise (extractall fs extract_to members) (\<lambda>fs1.
     walk n fs1 extract_to))"
| "walk 0 fs root = None"
| "walk (Suc n) fs root =
     (case lookup fs root of
        Some (DirN es) \<Rightarrow>
          and_then (walk_files n fs root (file_names es)) (\<lambda>(fs1, pdf_files).
          and_then (walk_dirs n fs1 root (dir_names es)) (\<lambda>(fs2, deeper).
          Some (Inr (fs2, pdf_files @ deeper))))
      | _ \<Rightarrow> Some (Inr (fs, [])))"
| "walk_files n fs root [] = Some (Inr (fs, []))"
| "walk_files n fs root (file # files) =
     (if endswith (lower file) ''.pdf''
      then and_then (walk_files n fs root files) (\<lambda>(fs1, pdf_files).
           Some (Inr (fs1, (root @ [file]) # pdf_files)))
      else if endswith (lower file) ''.zip''
      then or_raise (store fs (root @ [nested_name file]) None) (\<lambda>fs1.
           and_then (case n of 0 \<Rightarrow> None
                     | Suc k \<Rightarrow> extract_zip_and_find_pdfs k fs1 (root @ [file])
                                  (root @ [nested_name file])) (\<lambda>(fs2, nested_pdfs).
           and_then (walk_files n fs2 root files) (\<lambda>(fs3, pdf_files).
           Some (Inr (fs3, nested_pdfs @ pdf_files)))))
      else walk_files n fs root files)"
| "walk_dirs n fs root [] = Some (Inr (fs, []))"
| "walk_dirs n fs root (d # ds) =
     and_then (case n of 0 \<Rightarrow> None | Suc k \<Rightarrow> walk k fs (root @ [d])) (\<lambda>(fs1, pdf_files).
     and_then (walk_dirs n fs1 root ds) (\<lambda>(fs2, deeper).
     Some (Inr (fs2, pdf_files @ deeper))))"
  by pat_completeness auto
termination
  by (relation "measures
        [\<lambda>x. case x of Inl (Inl (n, _)) \<Rightarrow> n | Inl (Inr (n, _)) \<Rightarrow> n
              | Inr (Inl (n, _)) \<Rightarrow> n | Inr (Inr (n, _)) \<Rightarrow> n,
         \<lambda>x. case x of Inl _ \<Rightarrow> 0 | Inr (Inl (n, fs, root, files)) \<Rightarrow> length files
              | Inr (Inr (n, fs, root, ds)) \<Rightarrow> length ds]")
    auto

section \<open>Processing the invoices\<close>

definition separator :: string where
  "separator = [CHR 0x0A, CHR 0x0A] @ ''---'' @ [CHR 0x0A, CHR 0x0A]"

text \<open>Step 3 of the loop body: append to the employee's text or start it.\<close>

definition record_invoice :: "(string \<times> string) list \<Rightarrow> string \<Rightarrow> string \<Rightarrow> (string \<times> string) list" where
  "record_invoice data employee_name invoice_data =
     (case map_of data employee_name of
        Some old \<Rightarrow> AList.update employee_name (old @ separator @ invoice_data) data
      | None \<Rightarrow> AList.update employee_name invoice_data data)"

text \<open>The loop over the PDF files; a state without the employee map would raise
  \<open>KeyError\<close>.\<close>

fun store_invoices :: "'s services \<Rightarrow> State \<Rightarrow> path list \<Rightarrow> error + State" where
  "store_invoices sv state [] = Inr state"
| "store_invoices sv state (pdf_path # pdf_files) =
     (let invoice_data = extract_invoice_data sv pdf_path state in
      if invoice_data \<noteq> []
      then (case employee_invoice_data state of
              None \<Rightarrow> Inl (Exception ''KeyError'' ([CHR 0x27] @ ''employee_invoice_data'' @ [CHR 0x27]))
            | Some data \<Rightarrow>
                store_invoices sv
                  (state\<lparr>employee_invoice_data :=
                     Some (record_invoice data (get_employee_name invoice_data) invoice_data)\<rparr>)
                  pdf_files)
      else store_invoices sv state pdf_files)"

text \<open>
  \<open>process_invoices\<close>. \<open>fs\<close> is the file system with the uploaded archive at
  \<open>zip_path\<close> and \<open>temp_dir\<close> the directory \<open>tempfile.TemporaryDirectory()\<close> has made;
  \<open>data0\<close> is the employee map after the initialisation. The result is \<open>None\<close> when
  the walker does not return within \<open>fuel\<close> calls.
\<close>

definition process_invoices :: "'s services \<Rightarrow> nat \<Rightarrow> fnode \<Rightarrow> path \<Rightarrow> State \<Rightarrow> path \<Rightarrow> State option" where
  "process_invoices sv fuel fs temp_dir state zip_path =
     (let data0 = (case employee_invoice_data state of None \<Rightarrow> [] | Some d \<Rightarrow> d);
          state1 = state\<lparr>employee_invoice_data := Some data0\<rparr>
      in case extract_zip_and_find_pdfs fuel fs zip_path temp_dir of
           None \<Rightarrow> None
         | Some (Inl e) \<Rightarrow>
             Some (state1\<lparr>employee_invoice_data := Some (AList.update ''Error'' (str_of e) data0)\<rparr>)
         | Some (Inr (fs1, pdf_files)) \<Rightarrow>
             (case store_invoices sv state1 pdf_files of
                Inl e \<Rightarrow>
                  Some (state1\<lparr>employee_invoice_data := Some (AList.update ''Error'' (str_of e) data0)\<rparr>)
              | Inr state2 \<Rightarrow> Some state2))"

section \<open>Answering a query\<close>

definition search_by_employee_name :: "'s services \<Rightarrow> string \<Rightarrow> nat \<Rightarrow> error + (document \<times> 's) list" where
  "search_by_employee_name sv employee_name top_k =
     similarity_search sv ''employee record'' top_k employee_name"

definition not_found_message :: "string \<Rightarrow> string" where
  "not_found_message employee_name = ''No data found for employee: '' @ employee_name"

definition context_of :: "(document \<times> 's) list \<Rightarrow> string" where
  "context_of results = join [CHR 0x0A, CHR 0x0A] (map (\<lambda>r. page_content (fst r)) results)"

text \<open>\<open>answer_query_for_employee\<close>; an exception of the search or of the model is not
  caught. Making the model client, the first statement of the function, is taken to
  succeed.\<close>

definition answer_query_for_employee :: "'s services \<Rightarrow> string \<Rightarrow> string \<Rightarrow> nat \<Rightarrow> error + string" where
  "answer_query_for_employee sv employee_name query top_k =
     (case search_by_employee_name sv employee_name top_k of
        Inl e \<Rightarrow> Inl e
      | Inr results \<Rightarrow>
          if results = [] then Inr (not_found_message employee_name)
          else llm_invoke sv (AnswerQuery (context_of results) query))"

section \<open>A sample run\<close>

text \<open>Concrete collaborators, texts and files on which the theorems below are
  instantiated.\<close>

definition asha_invoice :: string where
  "asha_invoice =
     ''**EMPLOYEE NAME:** **Asha Rao**'' @ [CHR 0x0A] @
     ''**REIMBURSEMENT STATUS:** **Fully Reimbursed**'' @ [CHR 0x0A] @
     ''**INVOICE DETAILS:**'' @ [CHR 0x0A] @
     ''- Invoice Type: Meal'' @ [CHR 0x0A] @
     ''- Total Amount: $450.00''"

definition ravi_invoice :: string where
  "ravi_invoice =
     ''**EMPLOYEE NAME:** Ravi'' @ [CHR 0x0A] @
     ''**REIMBURSEMENT STATUS:** **Declined**'' @ [CHR 0x0A] @
     ''**INVOICE DETAILS:**'' @ [CHR 0x0A] @
     ''- Invoice Type: Cab'' @ [CHR 0x0A] @
     ''- Total Amount: $1,200''"

definition demo_services :: "nat services" where
  "demo_services =
     \<lparr>to_markdown = (\<lambda>p.
          if p = [''tmp'', ''asha.pdf''] then Inr ''asha''
          else if p = [''tmp'', ''ravi.pdf''] then Inr ''ravi''
          else Inl (Exception ''RuntimeError'' ''cannot open document'')),
      render_pages = (\<lambda>p. Inr []),
      llm_invoke = (\<lambda>r.
          case r of
            StructureInvoice policy t \<Rightarrow>
              if t = ''asha'' then Inr asha_invoice
              else if t = ''ravi'' then Inr ravi_invoice
              else Inl (Exception ''RuntimeError'' ''model unavailable'')
          | Describe k t \<Rightarrow> Inr ''A short description''
          | AnswerQuery ctx q \<Rightarrow> Inr (''Answer from: '' @ ctx)
          | ReadInvoiceImage img \<Rightarrow> Inr img),
      similarity_search = (\<lambda>q k name.
          if name = ''Asha Rao''
          then Inr [(\<lparr>page_content = ''Employee Name: Asha Rao'',
                       doc_employee_name = ''Asha Rao'', doc_date = None\<rparr>, 1),
                    (\<lparr>page_content = ''Invoice Count: 2'',
                       doc_employee_name = ''Asha Rao'', doc_date = None\<rparr>, 2)]
          else Inr [])\<rparr>"

text \<open>The same collaborators with a model that answers every request with one fixed
  text.\<close>

definition parrot_services :: "nat services" where
  "parrot_services =
     demo_services\<lparr>llm_invoke := (\<lambda>r. Inr ''No data found for employee: Asha Rao'')\<rparr>"

definition demo_state :: State where
  "demo_state =
     \<lparr>md_text = Some ''policy'',
      employee_invoice_data = Some [(''Asha Rao'', asha_invoice @ separator @ asha_invoice),
                                    (''Ravi'', ravi_invoice)],
      extract_invoice_data_key = None\<rparr>"

definition empty_state :: State where
  "empty_state = \<lparr>md_text = Some ''policy'', employee_invoice_data = Some [],
     extract_invoice_data_key = None\<rparr>"

definition corrupt_upload :: fnode where
  "corrupt_upload = DirN [(''upload.zip'', FileN Blob), (''tmp'', DirN [])]"


definition clash_upload :: fnode where
  "clash_upload =
     DirN [(''upload.zip'', FileN (Archive
              [([''nested_x.pdf''], Some Blob),
               ([''x.pdf.zip''], Some (Archive [([''b.pdf''], Some Blob), ([''c.pdf''], Some Blob)]))])),
           (''tmp'', DirN [])]"

definition twice_upload :: fnode where
  "twice_upload =
     DirN [(''upload.zip'', FileN (Archive
              [([''nested_inner''], None),
               ([''a.pdf''], Some Blob),
               ([''inner.zip''], Some (Archive [([''b.pdf''], Some Blob), ([''c.pdf''], Some Blob)]))])),
           (''tmp'', DirN [])]"

section \<open>Properties of the matcher\<close>

lemma counts_1_2:
  "counts (Suc 0) (Some 2) k = (if k = 0 then [] else if k = 1 then [1] else [2, 1])"
  by (auto simp: counts_def min_def upt_rec numeral_2_eq_2)

lemma counts_4_4: "counts 4 (Some 4) k = (if k < 4 then [] else [4])"
  by (auto simp: counts_def min_def upt_rec)

lemma digit_is_word: "is_digit c \<Longrightarrow> is_word c"
  by (simp add: is_word_def Let_def)

lemma slash_not_digit [simp]: "\<not> is_digit (CHR ''/'')"
  by (simp add: is_digit_def code_def)

lemma word_opt_Some_digit [simp]: "is_digit c \<Longrightarrow> word_opt (Some c)"
  by (simp add: word_opt_def digit_is_word)

text \<open>A repetition \<open>{1,2}\<close> tries two characters before one; \<open>{4}\<close> takes four.\<close>

lemma bt_rep12:
  "bt (Rep (Suc 0) (Some 2) p # r) prev rest os gs =
     (case rest of
        [] \<Rightarrow> None
      | c1 # cs \<Rightarrow>
          if \<not> p c1 then None
          else (case cs of
                  [] \<Rightarrow> bt r (Some c1) [] (map (\<lambda>a. a @ [c1]) os) gs
                | c2 # cs' \<Rightarrow>
                    if p c2
                    then (case bt r (Some c2) cs' (map (\<lambda>a. a @ [c1, c2]) os) gs of
                            Some x \<Rightarrow> Some x
                          | None \<Rightarrow> bt r (Some c1) cs (map (\<lambda>a. a @ [c1]) os) gs)
                    else bt r (Some c1) cs (map (\<lambda>a. a @ [c1]) os) gs))"
  by (auto simp: counts_1_2 last_of_def split: list.splits option.splits)

lemma bt_rep44:
  "bt (Rep 4 (Some 4) p # r) prev rest os gs =
     (case rest of
        a # b # c # d # rest' \<Rightarrow>
          if p a \<and> p b \<and> p c \<and> p d
          then bt r (Some d) rest' (map (\<lambda>x. x @ [a, b, c, d]) os) gs
          else None
      | _ \<Rightarrow> None)"
  by (auto simp: counts_4_4 last_of_def split: list.splits option.splits)

lemma last_of_Cons: "last_of prev (c # cs) = last_of (Some c) cs"
  by (simp add: last_of_def)

text \<open>The search returns the match at the first position that has one.\<close>

lemma search_from_None:
  "(\<And>pre rest. t = pre @ rest \<Longrightarrow> bt p (last_of prev pre) rest [] [] = None)
   \<Longrightarrow> search_from p prev t = None"
proof (induction t arbitrary: prev)
  case Nil
  from Nil[of "[]" "[]"] show ?case by (simp add: last_of_def)
next
  case (Cons c cs)
  have a: "bt p prev (c # cs) [] [] = None"
    using Cons.prems[of "[]" "c # cs"] by (simp add: last_of_def)
  have "search_from p (Some c) cs = None"
  proof (rule Cons.IH)
    fix pre rest assume "cs = pre @ rest"
    then show "bt p (last_of (Some c) pre) rest [] [] = None"
      using Cons.prems[of "c # pre" rest] by (simp add: last_of_Cons)
  qed
  with a show ?case by simp
qed

lemma search_from_first:
  "bt p (last_of prev pre) rest [] [] = Some r \<Longrightarrow>
   (\<And>pre2 rest2. pre @ rest = pre2 @ rest2 \<Longrightarrow> length pre2 < length pre
       \<Longrightarrow> bt p (last_of prev pre2) rest2 [] [] = None)
   \<Longrightarrow> search_from p prev (pre @ rest) = Some r"
proof (induction pre arbitrary: prev)
  case Nil
  then show ?case by (cases rest) (simp_all add: last_of_def)
next
  case (Cons c cs)
  have a: "bt p prev (c # cs @ rest) [] [] = None"
    using Cons.prems(2)[of "[]" "c # cs @ rest"] by (simp add: last_of_def)
  have "search_from p (Some c) (cs @ rest) = Some r"
  proof (rule Cons.IH)
    show "bt p (last_of (Some c) cs) rest [] [] = Some r"
      using Cons.prems(1) by (simp add: last_of_Cons)
  next
    fix pre2 rest2 assume "cs @ rest = pre2 @ rest2" "length pre2 < length cs"
    then show "bt p (last_of (Some c) pre2) rest2 [] [] = None"
      using Cons.prems(2)[of "c # pre2" rest2] by (simp add: last_of_Cons)
  qed
  with a show ?case by simp
qed

lemma search_from_Some:
  "search_from p prev t = Some r \<Longrightarrow>
   \<exists>pre rest. t = pre @ rest \<and> bt p (last_of prev pre) rest [] [] = Some r"
proof (induction t arbitrary: prev)
  case Nil
  then show ?case by (simp add: last_of_def)
next
  case (Cons c cs)
  show ?case
  proof (cases "bt p prev (c # cs) [] []")
    case (Some m)
    with Cons.prems have "bt p (last_of prev []) (c # cs) [] [] = Some r"
      by (simp add: last_of_def)
    then show ?thesis by (metis append_Nil)
  next
    case None
    with Cons.prems have "search_from p (Some c) cs = Some r" by simp
    from Cons.IH[OF this] obtain pre rest where
      "cs = pre @ rest" "bt p (last_of (Some c) pre) rest [] [] = Some r" by blast
    then have "c # cs = (c # pre) @ rest \<and> bt p (last_of prev (c # pre)) rest [] [] = Some r"
      by (simp add: last_of_Cons)
    then show ?thesis by blast
  qed
qed

section \<open>Properties of the date extraction\<close>

text \<open>A match of the date pattern at a position is a bare triple there, and a bare
  triple is matched.\<close>

lemma bt_date_Some:
  assumes "bt date_pattern prev rest [] [] = Some (gs, p', post)"
  shows "\<exists>d m y. gs = [d, m, y] \<and> rest = d @ ''/'' @ m @ ''/'' @ y @ post \<and>
           list_all is_digit d \<and> (length d = 1 \<or> length d = 2) \<and>
           list_all is_digit m \<and> (length m = 1 \<or> length m = 2) \<and>
           list_all is_digit y \<and> length y = 4 \<and>
           \<not> word_opt prev \<and> \<not> word_opt (head_opt post) \<and> p' = Some (last y)"
  using assms
  by (auto simp: date_pattern_def bt_rep12 bt_rep44 ch_def is_boundary_def head_opt_def
      simp del: bt.simps(3) split: list.splits if_splits option.splits)

lemma bt_date_occ:
  assumes "\<not> word_opt prev" "list_all is_digit d" "length d = 1 \<or> length d = 2"
    "list_all is_digit m" "length m = 1 \<or> length m = 2"
    "list_all is_digit y" "length y = 4" "\<not> word_opt (head_opt post)"
  shows "bt date_pattern prev (d @ ''/'' @ m @ ''/'' @ y @ post) [] [] =
           Some ([d, m, y], Some (last y), post)"
proof -
  obtain y1 y2 y3 y4 where y: "y = [y1, y2, y3, y4]"
    using assms(7) by (auto simp: length_Suc_conv numeral_eq_Suc)
  have dd: "(\<exists>d1. d = [d1]) \<or> (\<exists>d1 d2. d = [d1, d2])"
    using assms(3) by (auto simp: length_Suc_conv numeral_eq_Suc)
  have mm: "(\<exists>m1. m = [m1]) \<or> (\<exists>m1 m2. m = [m1, m2])"
    using assms(5) by (auto simp: length_Suc_conv numeral_eq_Suc)
  note S = date_pattern_def bt_rep12 bt_rep44 ch_def is_boundary_def head_opt_def
  from dd mm show ?thesis
  proof (elim disjE exE)
    fix d1 m1 assume "d = [d1]" "m = [m1]"
    then show ?thesis using assms(1,2,4,6,8) y
      by (simp add: S del: bt.simps(3))
  next
    fix d1 m1 m2 assume "d = [d1]" "m = [m1, m2]"
    then show ?thesis using assms(1,2,4,6,8) y
      by (simp add: S del: bt.simps(3))
  next
    fix d1 d2 m1 assume "d = [d1, d2]" "m = [m1]"
    then show ?thesis using assms(1,2,4,6,8) y
      by (simp add: S del: bt.simps(3))
  next
    fix d1 d2 m1 m2 assume "d = [d1, d2]" "m = [m1, m2]"
    then show ?thesis using assms(1,2,4,6,8) y
      by (simp add: S del: bt.simps(3))
  qed
qed

lemma bt_date_occurrence:
  "bt date_pattern (last_of None pre) rest [] [] = Some (gs, p', post) \<Longrightarrow>
   \<exists>d m y. gs = [d, m, y] \<and> rest = d @ ''/'' @ m @ ''/'' @ y @ post \<and>
     date_occurrence pre d m y post"
  by (drule bt_date_Some) (auto simp: date_occurrence_def)

text \<open>A result of the extraction is two digits, a slash, two digits, a slash and four
  digits.\<close>

lemma extract_date_shape:
  assumes "extract_date_from_description t = Some r"
  shows "\<exists>d m y. r = zfill 2 d @ ''/'' @ zfill 2 m @ ''/'' @ y \<and>
           list_all is_digit d \<and> (length d = 1 \<or> length d = 2) \<and>
           list_all is_digit m \<and> (length m = 1 \<or> length m = 2) \<and>
           list_all is_digit y \<and> length y = 4"
proof -
  from assms obtain day month year where
    s: "re_search date_pattern t = Some [day, month, year]"
    and r: "r = zfill 2 day @ ''/'' @ zfill 2 month @ ''/'' @ year"
    by (auto simp: extract_date_from_description_def split: if_splits option.splits list.splits)
  from s obtain p' post where "search_from date_pattern None t = Some ([day, month, year], p', post)"
    by (auto simp: re_search_def)
  from search_from_Some[OF this] obtain pre rest where
    "bt date_pattern (last_of None pre) rest [] [] = Some ([day, month, year], p', post)"
    by blast
  from bt_date_Some[OF this] r show ?thesis by auto
qed

lemma zfill_digits:
  "list_all is_digit d \<Longrightarrow> length d = 1 \<or> length d = 2 \<Longrightarrow>
   list_all is_digit (zfill 2 d) \<and> length (zfill 2 d) = 2 \<and> zfill 2 (zfill 2 d) = zfill 2 d"
  by (auto simp: zfill_def is_digit_def code_def length_Suc_conv numeral_eq_Suc
      split: list.splits)

lemma extract_date_leftmost:
  assumes occ: "date_occurrence pre d m y post"
    and least: "\<And>pre' d' m' y' post'.
        pre @ d @ ''/'' @ m @ ''/'' @ y @ post = pre' @ d' @ ''/'' @ m' @ ''/'' @ y' @ post' \<Longrightarrow>
        date_occurrence pre' d' m' y' post' \<Longrightarrow> length pre \<le> length pre'"
  shows "extract_date_from_description (pre @ d @ ''/'' @ m @ ''/'' @ y @ post) =
           Some (zfill 2 d @ ''/'' @ zfill 2 m @ ''/'' @ y)"
proof -
  have m1: "bt date_pattern (last_of None pre) (d @ ''/'' @ m @ ''/'' @ y @ post) [] [] =
      Some ([d, m, y], Some (last y), post)"
    using occ by (intro bt_date_occ) (simp_all add: date_occurrence_def)
  have "search_from date_pattern None (pre @ (d @ ''/'' @ m @ ''/'' @ y @ post)) =
      Some ([d, m, y], Some (last y), post)"
  proof (rule search_from_first[OF m1])
    fix pre2 rest2
    assume e: "pre @ d @ ''/'' @ m @ ''/'' @ y @ post = pre2 @ rest2"
      and l: "length pre2 < length pre"
    show "bt date_pattern (last_of None pre2) rest2 [] [] = None"
    proof (rule ccontr)
      assume "bt date_pattern (last_of None pre2) rest2 [] [] \<noteq> None"
      then obtain gs p' post2 where
        "bt date_pattern (last_of None pre2) rest2 [] [] = Some (gs, p', post2)"
        by (cases "bt date_pattern (last_of None pre2) rest2 [] []") auto
      from bt_date_occurrence[OF this] obtain d2 m2 y2 where
        "rest2 = d2 @ ''/'' @ m2 @ ''/'' @ y2 @ post2" "date_occurrence pre2 d2 m2 y2 post2"
        by blast
      with least[of pre2 d2 m2 y2 post2] e have "length pre \<le> length pre2" by simp
      with l show False by simp
    qed
  qed
  then show ?thesis
    by (simp add: extract_date_from_description_def re_search_def)
qed

lemma extract_date_absent:
  assumes "\<And>pre d m y post.
      t = pre @ d @ ''/'' @ m @ ''/'' @ y @ post \<Longrightarrow> \<not> date_occurrence pre d m y post"
  shows "extract_date_from_description t = None"
proof -
  have "search_from date_pattern None t = None"
  proof (rule search_from_None)
    fix pre rest assume e: "t = pre @ rest"
    show "bt date_pattern (last_of None pre) rest [] [] = None"
    proof (rule ccontr)
      assume "bt date_pattern (last_of None pre) rest [] [] \<noteq> None"
      then obtain gs p' post2 where
        "bt date_pattern (last_of None pre) rest [] [] = Some (gs, p', post2)"
        by (cases "bt date_pattern (last_of None pre) rest [] []") auto
      from bt_date_occurrence[OF this] obtain d2 m2 y2 where
        "rest = d2 @ ''/'' @ m2 @ ''/'' @ y2 @ post2" "date_occurrence pre d2 m2 y2 post2"
        by blast
      with assms e show False by blast
    qed
  qed
  then show ?thesis
    by (simp add: extract_date_from_description_def re_search_def)
qed

text \<open>
  Claim C4. For every text \<open>t\<close>: when \<open>t\<close> has a bare day/month/year triple (one or two
  digits, slash, one or two digits, slash, four digits, delimited by word boundaries),
  \<open>extract_date_from_description\<close> returns the leftmost one with day and month padded
  with zeros to two digits; when \<open>t\<close> has none, it returns \<open>None\<close>. The function is
  total: it has no raising branch.
\<close>

theorem extract_date_first_match:
  "(t = pre @ d @ ''/'' @ m @ ''/'' @ y @ post \<and> date_occurrence pre d m y post \<and>
    (\<forall>pre' d' m' y' post'.
        t = pre' @ d' @ ''/'' @ m' @ ''/'' @ y' @ post' \<and> date_occurrence pre' d' m' y' post'
        \<longrightarrow> length pre \<le> length pre')
    \<longrightarrow> extract_date_from_description t = Some (zfill 2 d @ ''/'' @ zfill 2 m @ ''/'' @ y))
   \<and> ((\<forall>pre d m y post.
          t = pre @ d @ ''/'' @ m @ ''/'' @ y @ post \<longrightarrow> \<not> date_occurrence pre d m y post)
        \<longrightarrow> extract_date_from_description t = None)"
proof (intro conjI impI)
  assume A: "t = pre @ d @ ''/'' @ m @ ''/'' @ y @ post \<and> date_occurrence pre d m y post \<and>
    (\<forall>pre' d' m' y' post'.
        t = pre' @ d' @ ''/'' @ m' @ ''/'' @ y' @ post' \<and> date_occurrence pre' d' m' y' post'
        \<longrightarrow> length pre \<le> length pre')"
  then have t: "t = pre @ d @ ''/'' @ m @ ''/'' @ y @ post" by simp
  show "extract_date_from_description t = Some (zfill 2 d @ ''/'' @ zfill 2 m @ ''/'' @ y)"
    unfolding t
  proof (rule extract_date_leftmost)
    show "date_occurrence pre d m y post" using A by simp
  next
    fix pre' d' m' y' post'
    assume "pre @ d @ ''/'' @ m @ ''/'' @ y @ post = pre' @ d' @ ''/'' @ m' @ ''/'' @ y' @ post'"
      "date_occurrence pre' d' m' y' post'"
    with A t show "length pre \<le> length pre'" by metis
  qed
next
  assume "\<forall>pre d m y post.
      t = pre @ d @ ''/'' @ m @ ''/'' @ y @ post \<longrightarrow> \<not> date_occurrence pre d m y post"
  then show "extract_date_from_description t = None"
    by (intro extract_date_absent) blast
qed

text \<open>Witness of C4: a text that is the triple \<open>3/1/2024\<close> gives \<open>03/01/2024\<close>, a
  text without a slash gives \<open>None\<close>.\<close>

theorem extract_date_first_match_witness:
  "extract_date_from_description ''3/1/2024'' = Some ''03/01/2024'' \<and>
   extract_date_from_description ''no date'' = None"
proof
  have occ: "date_occurrence [] ''3'' ''1'' ''2024'' []"
    by (simp add: date_occurrence_def is_digit_def code_def word_opt_def last_of_def head_opt_def)
  have "extract_date_from_description ''3/1/2024'' =
      Some (zfill 2 ''3'' @ ''/'' @ zfill 2 ''1'' @ ''/'' @ ''2024'')"
    using extract_date_first_match[of "''3/1/2024''" "[]" "''3''" "''1''" "''2024''" "[]"] occ
    by simp
  then show "extract_date_from_description ''3/1/2024'' = Some ''03/01/2024''"
    by (simp add: zfill_def)
next
  have "\<forall>pre d m y post. ''no date'' = pre @ d @ ''/'' @ m @ ''/'' @ y @ post
      \<longrightarrow> \<not> date_occurrence pre d m y post"
  proof (intro allI impI)
    fix pre d m y post :: string
    assume e: "''no date'' = pre @ d @ ''/'' @ m @ ''/'' @ y @ post"
    have "CHR ''/'' \<in> set (pre @ d @ ''/'' @ m @ ''/'' @ y @ post)" by simp
    with e have "CHR ''/'' \<in> set ''no date''" by simp
    then show "\<not> date_occurrence pre d m y post" by simp
  qed
  with extract_date_first_match[of "''no date''"]
  show "extract_date_from_description ''no date'' = None" by blast
qed

text \<open>Examples of C4 by evaluation: the first triple wins, and a triple glued to a
  word character or to further digits is no match.\<close>

lemma extract_date_examples:
  "extract_date_from_description ''Date is 3/1/2024 ok'' = Some ''03/01/2024''"
  "extract_date_from_description ''on 12/11/2023, then 1/2/1999'' = Some ''12/11/2023''"
  "extract_date_from_description ''a3/1/2024'' = None"
  "extract_date_from_description ''123/1/2024'' = None"
  "extract_date_from_description ''1/2/20245 then 01/2/1999.'' = Some ''01/02/1999''"
  "extract_date_from_description [] = None"
  by code_simp+

text \<open>
  Claim C5. Date extraction is idempotent: a date string that the function returns for
  some text is returned unchanged when the function is applied to it.
\<close>

theorem extract_date_idempotent:
  "extract_date_from_description t = Some r \<Longrightarrow> extract_date_from_description r = Some r"
proof -
  assume "extract_date_from_description t = Some r"
  from extract_date_shape[OF this] obtain d m y where
    r: "r = zfill 2 d @ ''/'' @ zfill 2 m @ ''/'' @ y"
    and d: "list_all is_digit d" "length d = 1 \<or> length d = 2"
    and m: "list_all is_digit m" "length m = 1 \<or> length m = 2"
    and y: "list_all is_digit y" "length y = 4"
    by blast
  have occ: "date_occurrence [] (zfill 2 d) (zfill 2 m) y []"
    using zfill_digits[OF d] zfill_digits[OF m] y
    by (simp add: date_occurrence_def word_opt_def last_of_def head_opt_def)
  have "extract_date_from_description ([] @ zfill 2 d @ ''/'' @ zfill 2 m @ ''/'' @ y @ []) =
      Some (zfill 2 (zfill 2 d) @ ''/'' @ zfill 2 (zfill 2 m) @ ''/'' @ y)"
    by (rule extract_date_leftmost[OF occ]) simp
  then show ?thesis
    using zfill_digits[OF d] zfill_digits[OF m] by (simp add: r)
qed

theorem extract_date_idempotent_witness:
  "extract_date_from_description ''paid on 3/1/2024'' = Some ''03/01/2024'' \<and>
   extract_date_from_description ''03/01/2024'' = Some ''03/01/2024''"
proof -
  have a: "extract_date_from_description ''paid on 3/1/2024'' = Some ''03/01/2024''"
    by code_simp
  from extract_date_idempotent[OF a] a show ?thesis by simp
qed

text \<open>
  Claim C10. The copy of \<open>extract_date_from_description\<close> in \<open>store.py\<close> and the one in
  \<open>helper.py\<close> return the same result for every string, the empty one included.
\<close>

theorem store_extract_date_eq_helper:
  "store_extract_date_from_description s = extract_date_from_description s"
  by (simp add: store_extract_date_from_description_def extract_date_from_description_def
      store_date_pattern_def date_pattern_def)

theorem store_extract_date_eq_helper_witness:
  "store_extract_date_from_description ''Date is 3/1/2024'' = Some ''03/01/2024'' \<and>
   store_extract_date_from_description [] = None"
proof -
  have "extract_date_from_description ''Date is 3/1/2024'' = Some ''03/01/2024''"
    "extract_date_from_description [] = None"
    by code_simp+
  then show ?thesis
    using store_extract_date_eq_helper[of "''Date is 3/1/2024''"]
      store_extract_date_eq_helper[of "[]"]
    by simp
qed

section \<open>Properties of the field extractors\<close>

lemma contains_decomp: "contains sub s \<Longrightarrow> \<exists>a b. s = a @ sub @ b"
proof (induction s)
  case Nil
  then show ?case by simp
next
  case (Cons c cs)
  then show ?case
  proof (cases "prefix sub (c # cs)")
    case True
    then obtain b where "c # cs = sub @ b" by (auto simp: prefix_def)
    then have "c # cs = [] @ sub @ b" by simp
    then show ?thesis by blast
  next
    case False
    with Cons obtain a b where "cs = a @ sub @ b" by auto
    then have "c # cs = (c # a) @ sub @ b" by simp
    then show ?thesis by blast
  qed
qed

lemma line_value_label:
  assumes "contains ''**EMPLOYEE NAME:**'' line"
  shows "\<exists>v. line_value line = Inr v"
proof -
  from contains_decomp[OF assms] obtain a b where "line = a @ ''**EMPLOYEE NAME:**'' @ b" by blast
  then have "CHR '':'' \<in> set line" by simp
  then show ?thesis by (simp add: line_value_def split_first_def)
qed

lemma name_from_lines_first:
  assumes "\<forall>l\<in>set before. contains ''**EMPLOYEE NAME:**'' l \<longrightarrow>
             line_value l = Inr [] \<or> line_value l = Inr no_information"
    and "contains ''**EMPLOYEE NAME:**'' line" "line_value line = Inr v"
    and "v \<noteq> []" "v \<noteq> no_information"
  shows "name_from_lines (before @ line # after) = Inr (Some v)"
  using assms by (induction before) auto

lemma name_from_lines_none:
  assumes "\<forall>l\<in>set lines. contains ''**EMPLOYEE NAME:**'' l \<longrightarrow>
             line_value l = Inr [] \<or> line_value l = Inr no_information"
  shows "name_from_lines lines = Inr None"
  using assms by (induction lines) auto

text \<open>
  Claim C3, amended. The value of a line is the text behind its first colon, trimmed,
  with every \<open>*\<close> removed and trimmed again. \<open>get_employee_name\<close> returns the value of
  the first line with the label \<open>**EMPLOYEE NAME:**\<close> whose value is neither empty nor
  the sentinel. A label line whose value is the sentinel is passed over like any other
  line: when no label line yields a name, the result is what the fallback patterns find
  in the whole text, and the sentinel only when they find nothing.
\<close>

theorem get_employee_name_label:
  "(split_char (CHR 0x0A) text = before @ line # after \<and>
    (\<forall>l\<in>set before. contains ''**EMPLOYEE NAME:**'' l \<longrightarrow>
        line_value l = Inr [] \<or> line_value l = Inr no_information) \<and>
    contains ''**EMPLOYEE NAME:**'' line \<and> line_value line = Inr v \<and>
    v \<noteq> [] \<and> v \<noteq> no_information
    \<longrightarrow> get_employee_name text = v) \<and>
   ((\<forall>l\<in>set (split_char (CHR 0x0A) text). contains ''**EMPLOYEE NAME:**'' l \<longrightarrow>
        line_value l = Inr [] \<or> line_value l = Inr no_information)
    \<longrightarrow> get_employee_name text =
          (case from_patterns name_patterns text of
             Some name \<Rightarrow> name
           | None \<Rightarrow> no_information))"
proof (intro conjI impI)
  assume A: "split_char (CHR 0x0A) text = before @ line # after \<and>
    (\<forall>l\<in>set before. contains ''**EMPLOYEE NAME:**'' l \<longrightarrow>
        line_value l = Inr [] \<or> line_value l = Inr no_information) \<and>
    contains ''**EMPLOYEE NAME:**'' line \<and> line_value line = Inr v \<and>
    v \<noteq> [] \<and> v \<noteq> no_information"
  then have "name_from_lines (before @ line # after) = Inr (Some v)"
    by (intro name_from_lines_first) simp_all
  with A show "get_employee_name text = v"
    by (simp add: get_employee_name_def get_employee_name_body_def)
next
  assume "\<forall>l\<in>set (split_char (CHR 0x0A) text). contains ''**EMPLOYEE NAME:**'' l \<longrightarrow>
        line_value l = Inr [] \<or> line_value l = Inr no_information"
  then have "name_from_lines (split_char (CHR 0x0A) text) = Inr None"
    by (rule name_from_lines_none)
  then show "get_employee_name text =
      (case from_patterns name_patterns text of Some name \<Rightarrow> name | None \<Rightarrow> no_information)"
    by (simp add: get_employee_name_def get_employee_name_body_def split: option.splits)
qed

text \<open>Witness of C3: the two records of the specification.\<close>

lemma john_doe_facts:
  "split_char (CHR 0x0A) ''**EMPLOYEE NAME:** **John Doe**'' = [''**EMPLOYEE NAME:** **John Doe**'']"
  "contains ''**EMPLOYEE NAME:**'' ''**EMPLOYEE NAME:** **John Doe**''"
  "line_value ''**EMPLOYEE NAME:** **John Doe**'' = Inr ''John Doe''"
  "''John Doe'' \<noteq> no_information"
  by code_simp+

lemma sentinel_facts:
  "split_char (CHR 0x0A) ''**EMPLOYEE NAME:** No information about employee'' =
     [''**EMPLOYEE NAME:** No information about employee'']"
  "line_value ''**EMPLOYEE NAME:** No information about employee'' = Inr no_information"
  "from_patterns name_patterns ''**EMPLOYEE NAME:** No information about employee'' = None"
  by code_simp+

theorem get_employee_name_label_witness:
  "get_employee_name ''**EMPLOYEE NAME:** **John Doe**'' = ''John Doe'' \<and>
   get_employee_name ''**EMPLOYEE NAME:** No information about employee'' = no_information"
proof
  show "get_employee_name ''**EMPLOYEE NAME:** **John Doe**'' = ''John Doe''"
    using get_employee_name_label[of "''**EMPLOYEE NAME:** **John Doe**''" "[]"
        "''**EMPLOYEE NAME:** **John Doe**''" "[]" "''John Doe''"] john_doe_facts
    by simp
  show "get_employee_name ''**EMPLOYEE NAME:** No information about employee'' = no_information"
    using get_employee_name_label[of "''**EMPLOYEE NAME:** No information about employee''"]
      sentinel_facts
    by simp
qed

text \<open>Counterexample to C3 as stated: the label line carries the sentinel, and the
  function returns the name a fallback pattern finds on another line.\<close>

theorem sentinel_fallback_counterexample:
  "get_employee_name (''**EMPLOYEE NAME:** No information about employee'' @ [CHR 0x0A] @
      ''Customer Name: Bob'') = ''Bob'' \<and> ''Bob'' \<noteq> no_information"
  by code_simp

text \<open>
  Claim C2, amended. The category that \<open>get_invoice_category_and_description\<close> returns
  is the normalisation of the invoice type the pattern captures (\<open>other\<close> without a
  match). The normalisation is total and yields one of \<open>meal\<close>, \<open>travel\<close>, \<open>cab\<close>,
  \<open>accomodation\<close> (the source's spelling of the bucket) and \<open>other\<close>; the key words
  are tried in this order, so that a text with key words of several buckets falls into
  the first of them.
\<close>

theorem category_normalization:
  "fst (get_invoice_category_and_description sv invoice_data) =
     normalize_category (captured_category invoice_data) \<and>
   normalize_category c \<in> {''meal'', ''travel'', ''cab'', ''accomodation'', ''other''} \<and>
   (contains ''meal'' c \<or> contains ''food'' c \<longrightarrow> normalize_category c = ''meal'') \<and>
   (\<not> (contains ''meal'' c \<or> contains ''food'' c) \<and>
      (contains ''travel'' c \<or> contains ''ticket'' c \<or> contains ''flight'' c \<or>
       contains ''train'' c)
    \<longrightarrow> normalize_category c = ''travel'') \<and>
   (\<not> (contains ''meal'' c \<or> contains ''food'' c) \<and>
    \<not> (contains ''travel'' c \<or> contains ''ticket'' c \<or> contains ''flight'' c \<or>
       contains ''train'' c) \<and>
      (contains ''cab'' c \<or> contains ''taxi'' c \<or> contains ''uber'' c \<or> contains ''ola'' c)
    \<longrightarrow> normalize_category c = ''cab'') \<and>
   (\<not> (contains ''meal'' c \<or> contains ''food'' c) \<and>
    \<not> (contains ''travel'' c \<or> contains ''ticket'' c \<or> contains ''flight'' c \<or>
       contains ''train'' c) \<and>
    \<not> (contains ''cab'' c \<or> contains ''taxi'' c \<or> contains ''uber'' c \<or> contains ''ola'' c) \<and>
      (contains ''hotel'' c \<or> contains ''house'' c \<or> contains ''pg'' c \<or>
       contains ''hostel'' c)
    \<longrightarrow> normalize_category c = ''accomodation'') \<and>
   (\<not> (contains ''meal'' c \<or> contains ''food'' c) \<and>
    \<not> (contains ''travel'' c \<or> contains ''ticket'' c \<or> contains ''flight'' c \<or>
       contains ''train'' c) \<and>
    \<not> (contains ''cab'' c \<or> contains ''taxi'' c \<or> contains ''uber'' c \<or> contains ''ola'' c) \<and>
    \<not> (contains ''hotel'' c \<or> contains ''house'' c \<or> contains ''pg'' c \<or>
       contains ''hostel'' c)
    \<longrightarrow> normalize_category c = ''other'')"
  by (simp add: get_invoice_category_and_description_def normalize_category_def Let_def)

text \<open>Witness of C2: with the key words of two buckets the earlier bucket wins.\<close>

lemma captured_meal_cab: "captured_category ''- Invoice Type: Meal/Cab'' = ''meal/cab''"
  by code_simp

lemma contains_meal_cab: "contains ''meal'' ''meal/cab''" "contains ''cab'' ''meal/cab''"
  by code_simp+

lemma contains_cab_hotel: "\<not> contains ''meal'' ''cab/hotel''"
 "\<not> contains ''food'' ''cab/hotel''"
 "\<not> contains ''travel'' ''cab/hotel''"
 "\<not> contains ''ticket'' ''cab/hotel''"
 "\<not> contains ''flight'' ''cab/hotel''"
 "\<not> contains ''train'' ''cab/hotel''"
 "contains ''cab'' ''cab/hotel''"
 "contains ''hotel'' ''cab/hotel''"
  by code_simp+

theorem category_normalization_witness:
  "fst (get_invoice_category_and_description demo_services ''- Invoice Type: Meal/Cab'') = ''meal'' \<and>
   normalize_category ''cab/hotel'' = ''cab''"
proof
  show "fst (get_invoice_category_and_description demo_services ''- Invoice Type: Meal/Cab'') = ''meal''"
    using category_normalization[of demo_services "''- Invoice Type: Meal/Cab''" "''meal/cab''"]
      captured_meal_cab contains_meal_cab by simp
  show "normalize_category ''cab/hotel'' = ''cab''"
    using category_normalization[of demo_services "[]" "''cab/hotel''"] contains_cab_hotel by blast
qed

text \<open>Counterexample to C2 as stated: for a hotel invoice the category is the
  string \<open>accomodation\<close>, which is none of the five strings of the claim.\<close>

theorem category_literal_counterexample:
  "fst (get_invoice_category_and_description demo_services ''- Invoice Type: Hotel'') = ''accomodation'' \<and>
   ''accomodation'' \<notin> {''meal'', ''travel'', ''cab'', ''accommodation'', ''other''}"
  by code_simp

section \<open>Properties of the aggregation\<close>

lemma invoice_count_summarize:
  "invoice_count (summarize sv invoice_data) = count_str invoice_marker invoice_data"
  by (simp add: summarize_def split: prod.splits)

lemma summary_loop_map_of:
  "summary_loop sv items acc = Inr summary \<Longrightarrow> distinct (map fst items) \<Longrightarrow>
   map_of summary name =
     (case map_of items name of
        Some invoice_data \<Rightarrow> Some (summarize sv invoice_data)
      | None \<Rightarrow> map_of acc name)"
proof (induction items arbitrary: acc)
  case Nil
  then show ?case by simp
next
  case (Cons item items)
  obtain k v where item: "item = (k, v)" by (cases item)
  from Cons.prems(1) item have
    loop: "summary_loop sv items (AList.update k (summarize sv v) acc) = Inr summary"
    by (auto split: sum.splits)
  from Cons.prems(2) item have d: "distinct (map fst items)" and k: "k \<notin> fst ` set items"
    by auto
  from k have none: "map_of items k = None" by (simp add: map_of_eq_None_iff)
  from Cons.IH[OF loop d] none show ?case
    by (auto simp: item update_conv' split: option.splits)
qed

text \<open>\<open>str.count\<close> does not count overlapping occurrences.\<close>

lemma count_str_overlap:
  "count_str invoice_marker ''**INVOICE DETAILS:**INVOICE DETAILS:**'' = 1"
  by code_simp

text \<open>\<open>get_summary\<close> does not always return: an amount without a digit makes \<open>float\<close>
  raise, and nothing catches it.\<close>

lemma get_summary_raises:
  "get_summary demo_services
     \<lparr>md_text = None, employee_invoice_data = Some [(''Ravi'', ''Total Amount: $,'')],
      extract_invoice_data_key = None\<rparr> =
   Inl (Exception ''ValueError'' (''could not convert string to float: '' @ [CHR 0x27, CHR 0x27]))"
  by code_simp

text \<open>
  Claim C1. When \<open>get_summary\<close> returns, its summary has an entry for exactly the
  employees of \<open>state["employee_invoice_data"]\<close> (a dictionary: distinct keys), and the
  \<open>invoice_count\<close> of an employee's entry is the number of occurrences of the marker
  \<open>**INVOICE DETAILS:**\<close> in that employee's text, counted as \<open>str.count\<close> counts.
\<close>

theorem invoice_count_counts_markers:
  assumes "get_summary sv state = Inr summary"
    and "employee_invoice_data state = Some items"
    and "distinct (map fst items)"
  shows "(\<forall>name entry. map_of summary name = Some entry \<longrightarrow>
            (\<exists>invoice_data. map_of items name = Some invoice_data \<and>
               invoice_count entry = count_str invoice_marker invoice_data)) \<and>
         (\<forall>name invoice_data. map_of items name = Some invoice_data \<longrightarrow>
            (\<exists>entry. map_of summary name = Some entry \<and>
               invoice_count entry = count_str invoice_marker invoice_data))"
proof -
  from assms(1,2) have "summary_loop sv items [] = Inr summary"
    by (simp add: get_summary_def)
  from summary_loop_map_of[OF this assms(3)] have
    m: "\<And>name. map_of summary name =
      (case map_of items name of
         Some invoice_data \<Rightarrow> Some (summarize sv invoice_data) | None \<Rightarrow> None)"
    by (simp split: option.splits)
  show ?thesis
    by (auto simp: m invoice_count_summarize split: option.splits)
qed

lemma demo_summary:
  "get_summary demo_services demo_state =
     Inr [(''Asha Rao'', \<lparr>invoice_count = 2, invoice_mode = ''meal'',
             Reimbursement_Status = ''Fully Reimbursed'', description = ''A short description''\<rparr>),
          (''Ravi'', \<lparr>invoice_count = 1, invoice_mode = ''cab'',
             Reimbursement_Status = ''Declined'', description = ''A short description''\<rparr>)]"
  by code_simp

lemma demo_marker_count:
  "count_str invoice_marker (asha_invoice @ separator @ asha_invoice) = 2"
  by code_simp

theorem invoice_count_counts_markers_witness:
  "\<exists>summary entry. get_summary demo_services demo_state = Inr summary \<and>
     map_of summary ''Asha Rao'' = Some entry \<and> invoice_count entry = 2 \<and>
     invoice_count entry = count_str invoice_marker (asha_invoice @ separator @ asha_invoice)"
proof -
  have items: "employee_invoice_data demo_state =
      Some [(''Asha Rao'', asha_invoice @ separator @ asha_invoice), (''Ravi'', ravi_invoice)]"
    by (simp add: demo_state_def)
  have d: "distinct (map fst [(''Asha Rao'', asha_invoice @ separator @ asha_invoice),
      (''Ravi'', ravi_invoice)])"
    by simp
  have look: "map_of [(''Asha Rao'', asha_invoice @ separator @ asha_invoice),
      (''Ravi'', ravi_invoice)] ''Asha Rao'' = Some (asha_invoice @ separator @ asha_invoice)"
    by simp
  from invoice_count_counts_markers[OF demo_summary items d] look
  obtain entry where
    "map_of [(''Asha Rao'', \<lparr>invoice_count = 2, invoice_mode = ''meal'',
             Reimbursement_Status = ''Fully Reimbursed'', description = ''A short description''\<rparr>),
          (''Ravi'', \<lparr>invoice_count = 1, invoice_mode = ''cab'',
             Reimbursement_Status = ''Declined'', description = ''A short description''\<rparr>)]
       ''Asha Rao'' = Some entry"
    "invoice_count entry = count_str invoice_marker (asha_invoice @ separator @ asha_invoice)"
    by blast
  then show ?thesis
    by (intro exI[of _ "[(''Asha Rao'', \<lparr>invoice_count = 2, invoice_mode = ''meal'',
             Reimbursement_Status = ''Fully Reimbursed'', description = ''A short description''\<rparr>),
          (''Ravi'', \<lparr>invoice_count = 1, invoice_mode = ''cab'',
             Reimbursement_Status = ''Declined'', description = ''A short description''\<rparr>)]"]
        exI[of _ entry]) (simp add: demo_summary demo_marker_count)
qed

section \<open>Properties of the query answerer\<close>

text \<open>
  Claim C7, amended. Given the result of the metadata-filtered similarity search for the
  employee, \<open>answer_query_for_employee\<close> returns the literal message
  \<open>No data found for employee: <name>\<close> whenever the result is empty, and otherwise the
  raw answer of the language model to the template filled with the question and with
  the texts of the retrieved documents, joined by blank lines in the order of the
  result. That answer is the model's to choose: the function returns the message
  exactly when the result is empty only as long as the model does not itself answer
  with that very text.
\<close>

theorem answer_query_not_found:
  assumes "search_by_employee_name sv employee_name top_k = Inr results"
  shows "answer_query_for_employee sv employee_name query top_k =
           (if results = [] then Inr (''No data found for employee: '' @ employee_name)
            else llm_invoke sv
                   (AnswerQuery
                      (join [CHR 0x0A, CHR 0x0A] (map (\<lambda>r. page_content (fst r)) results))
                      query)) \<and>
         (llm_invoke sv (AnswerQuery (context_of results) query) \<noteq>
            Inr (''No data found for employee: '' @ employee_name)
          \<longrightarrow> (answer_query_for_employee sv employee_name query top_k =
                  Inr (''No data found for employee: '' @ employee_name)
                \<longleftrightarrow> results = []))"
  using assms
  by (simp add: answer_query_for_employee_def not_found_message_def context_of_def)

theorem answer_query_not_found_witness:
  "answer_query_for_employee demo_services ''Nobody'' ''How many invoices?'' 5 =
     Inr ''No data found for employee: Nobody'' \<and>
   answer_query_for_employee demo_services ''Asha Rao'' ''How many invoices?'' 5 =
     Inr (''Answer from: Employee Name: Asha Rao'' @ [CHR 0x0A, CHR 0x0A] @ ''Invoice Count: 2'')"
proof
  have s: "search_by_employee_name demo_services ''Nobody'' 5 = Inr []"
    by (simp add: search_by_employee_name_def demo_services_def)
  from answer_query_not_found[OF s, of "''How many invoices?''"]
  show "answer_query_for_employee demo_services ''Nobody'' ''How many invoices?'' 5 =
     Inr ''No data found for employee: Nobody''"
    by simp
next
  have s: "search_by_employee_name demo_services ''Asha Rao'' 5 =
      Inr [(\<lparr>page_content = ''Employee Name: Asha Rao'',
               doc_employee_name = ''Asha Rao'', doc_date = None\<rparr>, 1),
           (\<lparr>page_content = ''Invoice Count: 2'',
               doc_employee_name = ''Asha Rao'', doc_date = None\<rparr>, 2)]"
    by (simp add: search_by_employee_name_def demo_services_def)
  from answer_query_not_found[OF s, of "''How many invoices?''"]
  show "answer_query_for_employee demo_services ''Asha Rao'' ''How many invoices?'' 5 =
     Inr (''Answer from: Employee Name: Asha Rao'' @ [CHR 0x0A, CHR 0x0A] @ ''Invoice Count: 2'')"
    by (simp add: demo_services_def)
qed

text \<open>Counterexample to C7 as stated: the search finds documents, the model answers
  with the text of the not-found message, and the function returns it.\<close>

theorem answer_query_message_counterexample:
  "search_by_employee_name parrot_services ''Asha Rao'' 5 \<noteq> Inr [] \<and>
   answer_query_for_employee parrot_services ''Asha Rao'' ''Repeat the message'' 5 =
     Inr ''No data found for employee: Asha Rao''"
  by (simp add: answer_query_for_employee_def search_by_employee_name_def
      parrot_services_def demo_services_def)

section \<open>Properties of the invoice loop\<close>

lemma policy_of_update [simp]:
  "policy_of (state\<lparr>employee_invoice_data := x\<rparr>) = policy_of state"
  by (simp add: policy_of_def)

lemma vision_pages_update [simp]:
  "vision_pages sv (state\<lparr>employee_invoice_data := x\<rparr>) imgs = vision_pages sv state imgs"
  by (induction imgs) (simp_all split: sum.splits)

lemma extract_with_vision_update [simp]:
  "extract_with_vision sv pdf_path (state\<lparr>employee_invoice_data := x\<rparr>) =
   extract_with_vision sv pdf_path state"
  by (cases "render_pages sv pdf_path") (simp_all add: extract_with_vision_def)

lemma process_with_llm_update [simp]:
  "process_with_llm sv text (state\<lparr>employee_invoice_data := x\<rparr>) =
   process_with_llm sv text state"
  by (simp add: process_with_llm_def)

text \<open>The extraction reads the policy text of the state only.\<close>

lemma extract_invoice_data_body_update [simp]:
  "extract_invoice_data_body sv pdf_path (state\<lparr>employee_invoice_data := x\<rparr>) =
   extract_invoice_data_body sv pdf_path state"
  by (cases "to_markdown sv pdf_path") (simp_all add: extract_invoice_data_body_def)

lemma extract_invoice_data_update [simp]:
  "extract_invoice_data sv pdf_path (state\<lparr>employee_invoice_data := x\<rparr>) =
   extract_invoice_data sv pdf_path state"
  by (simp add: extract_invoice_data_def)

lemma store_invoices_skip:
  "extract_invoice_data sv pdf_path state = [] \<Longrightarrow>
   store_invoices sv state (before @ pdf_path # after) = store_invoices sv state (before @ after)"
proof (induction before arbitrary: state)
  case Nil
  then show ?case by simp
next
  case (Cons p ps)
  show ?case
  proof (cases "extract_invoice_data sv p state = []")
    case True
    with Cons show ?thesis by simp
  next
    case False
    show ?thesis
    proof (cases "employee_invoice_data state")
      case None
      with False show ?thesis by simp
    next
      case (Some data)
      let ?s = "state\<lparr>employee_invoice_data :=
        Some (record_invoice data (get_employee_name (extract_invoice_data sv p state))
               (extract_invoice_data sv p state))\<rparr>"
      have "extract_invoice_data sv pdf_path ?s = []"
        using Cons.prems by simp
      from Cons.IH[OF this] False Some show ?thesis by (simp add: Let_def)
    qed
  qed
qed

text \<open>With the employee map in place the loop raises nothing.\<close>

lemma store_invoices_returns:
  "employee_invoice_data state \<noteq> None \<Longrightarrow> \<exists>state'. store_invoices sv state pdf_files = Inr state'"
  by (induction pdf_files arbitrary: state) (auto simp: Let_def)

text \<open>
  Claim C8. An exception anywhere in the extraction of an invoice PDF makes
  \<open>extract_invoice_data\<close> return the empty string, and the loop of \<open>process_invoices\<close>
  passes over a PDF with an empty result: the state it produces is the one it produces
  for the list of PDFs without that one, so the entries of the other invoices are what
  they would be without it.
\<close>

theorem failed_extraction_dropped:
  "(extract_invoice_data_body sv pdf_path state = Inl e
      \<longrightarrow> extract_invoice_data sv pdf_path state = []) \<and>
   (extract_invoice_data sv pdf_path state = []
      \<longrightarrow> store_invoices sv state (before @ pdf_path # after) =
          store_invoices sv state (before @ after))"
  by (simp add: extract_invoice_data_def store_invoices_skip)

lemma demo_extraction_fails:
  "extract_invoice_data_body demo_services [''tmp'', ''bad.pdf''] empty_state =
     Inl (Exception ''RuntimeError'' ''cannot open document'')"
  by (simp add: extract_invoice_data_body_def demo_services_def)

lemma demo_store_invoices:
  "store_invoices demo_services empty_state [[''tmp'', ''asha.pdf''], [''tmp'', ''ravi.pdf'']] =
     Inr (empty_state\<lparr>employee_invoice_data :=
            Some [(''Asha Rao'', asha_invoice), (''Ravi'', ravi_invoice)]\<rparr>)"
  by code_simp

theorem failed_extraction_dropped_witness:
  "extract_invoice_data demo_services [''tmp'', ''bad.pdf''] empty_state = [] \<and>
   store_invoices demo_services empty_state
     [[''tmp'', ''asha.pdf''], [''tmp'', ''bad.pdf''], [''tmp'', ''ravi.pdf'']] =
     Inr (empty_state\<lparr>employee_invoice_data :=
            Some [(''Asha Rao'', asha_invoice), (''Ravi'', ravi_invoice)]\<rparr>)"
proof -
  note t = failed_extraction_dropped[of demo_services "[''tmp'', ''bad.pdf'']" empty_state
      "Exception ''RuntimeError'' ''cannot open document''"
      "[[''tmp'', ''asha.pdf'']]" "[[''tmp'', ''ravi.pdf'']]"]
  from t demo_extraction_fails have
    a: "extract_invoice_data demo_services [''tmp'', ''bad.pdf''] empty_state = []"
    by blast
  with t have "store_invoices demo_services empty_state
      ([[''tmp'', ''asha.pdf'']] @ [''tmp'', ''bad.pdf''] # [[''tmp'', ''ravi.pdf'']]) =
     store_invoices demo_services empty_state ([[''tmp'', ''asha.pdf'']] @ [[''tmp'', ''ravi.pdf'']])"
    by blast
  with a demo_store_invoices show ?thesis by simp
qed

section \<open>Properties of process_invoices\<close>

text \<open>A file that is no zip archive makes the walker raise \<open>BadZipFile\<close>.\<close>

lemma corrupt_archive_raises:
  "lookup fs zip_path = Some (FileN Blob) \<Longrightarrow>
   extract_zip_and_find_pdfs (Suc n) fs zip_path extract_to =
     Some (Inl (Exception ''BadZipFile'' ''File is not a zip file''))"
  by (simp add: open_zip_def or_raise_def)

lemma one_entry_per_key:
  "distinct (map fst xs) \<Longrightarrow> map_of xs k = Some v \<Longrightarrow>
   length (filter (\<lambda>kv. fst kv = k) xs) = 1"
proof (induction xs)
  case Nil
  then show ?case by simp
next
  case (Cons x xs)
  show ?case
  proof (cases "fst x = k")
    case True
    with Cons.prems(1) have "k \<notin> fst ` set xs" by auto
    then have "filter (\<lambda>kv. fst kv = k) xs = []" by (auto simp: filter_empty_conv)
    with True show ?thesis by simp
  next
    case False
    with Cons show ?thesis by (cases x) auto
  qed
qed

text \<open>
  Claim C9, amended. When the archive walker raises inside \<open>process_invoices\<close> (a
  corrupt archive, for one), the function returns normally. It records the failure in
  the employee map of the state, \<open>state["employee_invoice_data"]\<close>: the returned map is
  the map at the call with one entry written under the key \<open>Error\<close>, whose value is the
  text of the exception; every other key keeps its value, the keys stay distinct, and
  the policy text is untouched. In the summary that \<open>get_summary\<close> builds from this map,
  \<open>Error\<close> is an employee like the others: its entry is the record derived from the
  exception text, not the text.
\<close>

theorem archive_failure_recorded:
  assumes "extract_zip_and_find_pdfs fuel fs zip_path temp_dir = Some (Inl e)"
    and "data0 = (case employee_invoice_data state of None \<Rightarrow> [] | Some d \<Rightarrow> d)"
  shows "\<exists>state' data.
           process_invoices sv fuel fs temp_dir state zip_path = Some state' \<and>
           employee_invoice_data state' = Some data \<and>
           map_of data ''Error'' = Some (str_of e) \<and>
           (\<forall>k. k \<noteq> ''Error'' \<longrightarrow> map_of data k = map_of data0 k) \<and>
           (distinct (map fst data0) \<longrightarrow>
              distinct (map fst data) \<and>
              length (filter (\<lambda>kv. fst kv = ''Error'') data) = 1 \<and>
              (\<forall>summary. get_summary sv state' = Inr summary \<longrightarrow>
                  map_of summary ''Error'' = Some (summarize sv (str_of e)))) \<and>
           md_text state' = md_text state"
proof -
  let ?data = "AList.update ''Error'' (str_of e) data0"
  let ?state' = "state\<lparr>employee_invoice_data := Some ?data\<rparr>"
  have p: "process_invoices sv fuel fs temp_dir state zip_path = Some ?state'"
    using assms by (simp add: process_invoices_def Let_def)
  have m: "map_of ?data ''Error'' = Some (str_of e)"
    by (simp add: update_conv')
  have o: "\<forall>k. k \<noteq> ''Error'' \<longrightarrow> map_of ?data k = map_of data0 k"
    by (simp add: update_conv')
  have d: "distinct (map fst data0) \<longrightarrow>
      distinct (map fst ?data) \<and> length (filter (\<lambda>kv. fst kv = ''Error'') ?data) = 1"
    using one_entry_per_key[OF _ m] by (simp add: distinct_update)
  have s: "distinct (map fst data0) \<longrightarrow>
      (\<forall>summary. get_summary sv ?state' = Inr summary \<longrightarrow>
          map_of summary ''Error'' = Some (summarize sv (str_of e)))"
  proof (intro impI allI)
    fix summary
    assume "distinct (map fst data0)" and g: "get_summary sv ?state' = Inr summary"
    then have dd: "distinct (map fst ?data)" by (simp add: distinct_update)
    from g have "summary_loop sv ?data [] = Inr summary" by (simp add: get_summary_def)
    from summary_loop_map_of[OF this dd, of "''Error''"] m
    show "map_of summary ''Error'' = Some (summarize sv (str_of e))" by simp
  qed
  from p m o d s show ?thesis by simp
qed

theorem archive_failure_recorded_witness:
  "\<exists>state' data.
     process_invoices demo_services 1 corrupt_upload [''tmp''] demo_state [''upload.zip''] =
       Some state' \<and>
     employee_invoice_data state' = Some data \<and>
     map_of data ''Error'' = Some ''File is not a zip file'' \<and>
     map_of data ''Ravi'' = Some ravi_invoice \<and>
     length (filter (\<lambda>kv. fst kv = ''Error'') data) = 1"
proof -
  have r: "extract_zip_and_find_pdfs (Suc 0) corrupt_upload [''upload.zip''] [''tmp''] =
      Some (Inl (Exception ''BadZipFile'' ''File is not a zip file''))"
    by (rule corrupt_archive_raises) (simp add: corrupt_upload_def)
  have d0: "[(''Asha Rao'', asha_invoice @ separator @ asha_invoice), (''Ravi'', ravi_invoice)] =
      (case employee_invoice_data demo_state of None \<Rightarrow> [] | Some d \<Rightarrow> d)"
    by (simp add: demo_state_def)
  from archive_failure_recorded[OF r d0, of demo_services]
  show ?thesis by (auto simp: str_of_def)
qed

text \<open>Counterexample to C9 as stated: after a corrupt archive the summary map has the
  key \<open>Error\<close>, and its value is a summary record computed from the exception text
  (no invoice, category \<open>other\<close>, status pending), not the exception text.\<close>

theorem error_summary_entry_counterexample:
  "process_invoices demo_services 1 corrupt_upload [''tmp''] empty_state [''upload.zip''] =
     Some (empty_state\<lparr>employee_invoice_data := Some [(''Error'', ''File is not a zip file'')]\<rparr>) \<and>
   get_summary demo_services
     (empty_state\<lparr>employee_invoice_data := Some [(''Error'', ''File is not a zip file'')]\<rparr>) =
     Inr [(''Error'', \<lparr>invoice_count = 0, invoice_mode = ''other'',
             Reimbursement_Status = ''**Pending Review**'',
             description = ''A short description''\<rparr>)]"
  by code_simp

section \<open>Properties of the archive walker\<close>









text \<open>A larger call budget does not help: the walker raises the same exception for
  every budget from 5 on.\<close>

lemma walker_name_clash_any_budget:
  "extract_zip_and_find_pdfs (5 + k) clash_upload [''upload.zip''] [''tmp''] =
     Some (Inl (Exception ''FileExistsError''
       (''[Errno 17] File exists: '' @ [CHR 0x27] @ ''tmp/nested_x.pdf'' @ [CHR 0x27])))"
proof -
  have fuel: "5 + k = Suc (Suc (Suc (Suc (Suc k))))" by simp
  have e: "endswith (lower ''nested_x.pdf'') ''.pdf''" "endswith (lower ''x.pdf.zip'') ''.zip''"
    "\<not> endswith (lower ''x.pdf.zip'') ''.pdf''"
    by code_simp+
  have n: "nested_name ''x.pdf.zip'' = ''nested_x.pdf''" by code_simp
  have s: "sanitize [''nested_x.pdf''] = [''nested_x.pdf'']" "sanitize [''x.pdf.zip''] = [''x.pdf.zip'']"
    by code_simp+
  have m: "os_error ''FileExistsError'' ''[Errno 17] File exists'' [''tmp'', ''nested_x.pdf''] =
      Exception ''FileExistsError''
        (''[Errno 17] File exists: '' @ [CHR 0x27] @ ''tmp/nested_x.pdf'' @ [CHR 0x27])"
    by code_simp
  show ?thesis
    unfolding fuel using e
    by (simp add: clash_upload_def open_zip_def or_raise_def and_then_def file_names_def
        dir_names_def is_dir_def store_def n s m)
qed

text \<open>A bundle that brings a directory of the nested directory's name: the directory is
  walked after the nested archive was expanded into it, and its PDFs are listed
  twice.\<close>

lemma walker_existing_directory:
  "map_option (map_sum id snd)
     (extract_zip_and_find_pdfs 6 twice_upload [''upload.zip''] [''tmp'']) =
     Some (Inr [[''tmp'', ''a.pdf''], [''tmp'', ''nested_inner'', ''b.pdf''],
                [''tmp'', ''nested_inner'', ''c.pdf''], [''tmp'', ''nested_inner'', ''b.pdf''],
                [''tmp'', ''nested_inner'', ''c.pdf'']])"
  by code_simp


end
